theory Spec2Isabelle
  imports Main
begin

section \<open>The libp2p client: data model\<close>

text \<open>
  The Go package \<^verbatim>\<open>internal/libp2pclient\<close> keeps one \<^verbatim>\<open>*peerMessageSender\<close> per peer in
  the map \<^verbatim>\<open>Client.peerSenders\<close>. The map stores pointers and the code compares them
  (\<^verbatim>\<open>ms != msCur\<close>), so the model has an explicit store: the senders the program has
  allocated, in allocation order. A pointer is an index into the store, and allocation
  appends, so a new pointer differs from every pointer handed out before.
\<close>

type_synonym peer_ID = string
type_synonym protocol_ID = string
type_synonym bytes = string
type_synonym ref = nat

text \<open>A Go \<^verbatim>\<open>error\<close> value, identified by its message.\<close>

datatype error = Error string

text \<open>\<^verbatim>\<open>var ErrReadTimeout = fmt.Errorf("timed out reading response")\<close>\<close>

definition ErrReadTimeout :: error where
  "ErrReadTimeout = Error ''timed out reading response''"

text \<open>
  \<^verbatim>\<open>var readMessageTimeout = 10 * time.Second\<close>. A \<^verbatim>\<open>time.Duration\<close> counts nanoseconds and
  \<^verbatim>\<open>time.Second\<close> is 1000000000 of them.
\<close>

definition Second :: int where
  "Second = 1000000000"

definition readMessageTimeout :: int where
  "readMessageTimeout = 10 * Second"

text \<open>
  A \<^verbatim>\<open>context.Context\<close> as the client sees it at one call: \<^verbatim>\<open>ctx.Err()\<close>, nil until the
  context is cancelled, and the deadline the caller set, if any (in nanoseconds from the
  call).
\<close>

datatype "context" = Context (ctx_err: "error option") (ctx_deadline: "int option")

text \<open>A \<^verbatim>\<open>proto.Message\<close>: all the client does with it is to serialise it.\<close>

datatype message = Message (marshal: bytes)

text \<open>
  Modelled from the spec: the type \<^verbatim>\<open>ctxMutex\<close> and its constructor \<^verbatim>\<open>newCtxMutex\<close> are not in
  the source read here. The spec's CancellableLock is a mutual-exclusion lock, which is
  held or free; a new one is free. Each sender owns its lock, so the lock's state is
  stored in the sender.
\<close>

datatype ctxMutex = CtxMutex (held: bool)

definition newCtxMutex :: ctxMutex where
  "newCtxMutex = CtxMutex False"

text \<open>
  Modelled from the spec: the declaration of \<^verbatim>\<open>peerMessageSender\<close> is not in the source read
  here; \<^verbatim>\<open>peerSender\<close> shows the fields \<^verbatim>\<open>peerID\<close> and \<^verbatim>\<open>ctxLock\<close>. The spec gives a sender a
  peer identity, a cancellable lock and an opaque stream handle (present or absent), and
  lets it be marked invalid. The stream handle's type \<open>'s\<close> is the networking host's.
\<close>

record 's peerMessageSender =
  peerID :: peer_ID
  ctxLock :: ctxMutex
  stream :: "'s option"
  invalid :: bool

text \<open>
  What the client does on the network, in the order it does it: one negotiation of one
  protocol with a peer, a write of bytes to a stream, a read on a stream that lasted so
  many nanoseconds, the teardown of a stream.
\<close>

datatype 's io = Negotiate peer_ID protocol_ID | Write 's bytes | Read 's int | Reset 's

text \<open>
  The store: the senders allocated so far (\<open>senders st ! r\<close> is the object the pointer \<open>r\<close>
  points to) and the network operations performed so far.
\<close>

record 's store =
  senders :: "'s peerMessageSender list"
  wire :: "'s io list"

text \<open>
  Modelled from the spec: the networking host and its streams are a library outside the
  repository. The spec's section on external interfaces gives the host a local identity
  and the opening of a stream to a peer under a protocol, and gives a stream a write
  and a read with a deadline. Here \<open>negotiate\<close> is the host's answer to one attempt at
  one protocol, \<open>liveness\<close> the optional check of a handle already held (a host with no
  such check answers \<open>None\<close> always), \<open>writeMsg\<close> the error of a write, and \<open>reply\<close> the peer's
  response to a read: the nanoseconds after the start of the read at which its bytes
  arrive, and the bytes; \<open>None\<close> when none ever arrive.
\<close>

record 's Host =
  ID :: peer_ID
  negotiate :: "peer_ID \<Rightarrow> protocol_ID \<Rightarrow> error + 's"
  liveness :: "'s \<Rightarrow> error option"
  writeMsg :: "'s \<Rightarrow> bytes \<Rightarrow> error option"
  reply :: "'s \<Rightarrow> (int \<times> bytes) option"

text \<open>
  \<^verbatim>\<open>type Client struct\<close>. The mutex \<^verbatim>\<open>sendersLock\<close> has no field of its own: every block of
  code that runs between its \<^verbatim>\<open>Lock\<close> and \<^verbatim>\<open>Unlock\<close> is one function of the model, applied
  atomically.
\<close>

record 's Client =
  ctx :: "context"
  host :: "'s Host"
  self :: peer_ID
  peerSenders :: "peer_ID \<rightharpoonup> ref"
  protocols :: "protocol_ID list"

text \<open>\<^verbatim>\<open>type DecodeResponseFunc func([]byte) error\<close>\<close>

type_synonym DecodeResponseFunc = "bytes \<Rightarrow> error option"

section \<open>Constructing a client\<close>

text \<open>
  \<^verbatim>\<open>func NewClient(ctx, h, protoID, options ...ClientOption) (*Client, error)\<close>. The type
  \<^verbatim>\<open>clientConfig\<close>, its zero value and its method \<^verbatim>\<open>apply\<close> are not in the source read here:
  \<open>cfg0\<close> is the zero value and \<open>apply\<close> the method, which returns the configuration it has
  written to and its error.
\<close>

definition NewClient ::
  "('cfg \<Rightarrow> 'opt list \<Rightarrow> 'cfg \<times> error option) \<Rightarrow> 'cfg \<Rightarrow> context \<Rightarrow> 's Host \<Rightarrow> protocol_ID
     \<Rightarrow> 'opt list \<Rightarrow> error + 's Client" where
  "NewClient apply cfg0 cx h protoID options =
     (case apply cfg0 options of
        (cfg, Some err) \<Rightarrow> Inl err
      | (cfg, None) \<Rightarrow>
          Inr \<lparr>ctx = cx, host = h, self = ID h, peerSenders = Map.empty,
               protocols = [protoID]\<rparr>)"

text \<open>
  Modelled from the spec: the types \<^verbatim>\<open>clientConfig\<close> and \<^verbatim>\<open>ClientOption\<close> are missing. The
  spec's configuration holds the accepted protocol identifiers in order of preference
  and the response-read timeout; an option changes the configuration or fails.
\<close>

record clientConfig =
  cfg_protocols :: "protocol_ID list"
  cfg_readTimeout :: int

type_synonym ClientOption = "clientConfig \<Rightarrow> error + clientConfig"

text \<open>
  Modelled from the spec: the method \<^verbatim>\<open>clientConfig.apply\<close> is missing. The options are
  applied once, in order, at construction; the first one that fails ends the
  application with its error.
\<close>

fun apply_options :: "clientConfig \<Rightarrow> ClientOption list \<Rightarrow> clientConfig \<times> error option" where
  "apply_options cfg [] = (cfg, None)"
| "apply_options cfg (opt # opts) =
     (case opt cfg of Inl err \<Rightarrow> (cfg, Some err) | Inr cfg' \<Rightarrow> apply_options cfg' opts)"

text \<open>
  Modelled from the spec: the option that sets the accepted protocol identifiers, which
  the spec counts among the recognised options, is missing.
\<close>

definition WithProtocols :: "protocol_ID list \<Rightarrow> ClientOption" where
  "WithProtocols ps cfg = Inr (cfg\<lparr>cfg_protocols := ps\<rparr>)"

text \<open>
  Modelled from the spec: the zero value of \<^verbatim>\<open>clientConfig\<close>, which \<^verbatim>\<open>var cfg clientConfig\<close>
  declares: every field at Go's zero value.
\<close>

definition zeroConfig :: clientConfig where
  "zeroConfig = \<lparr>cfg_protocols = [], cfg_readTimeout = 0\<rparr>"

section \<open>Looking up or creating a sender\<close>

text \<open>
  \<^verbatim>\<open>func (c *Client) peerSender(peerID peer.ID) *peerMessageSender\<close>, the whole body under
  \<^verbatim>\<open>sendersLock\<close>. The composite literal sets \<^verbatim>\<open>peerID\<close> and \<^verbatim>\<open>ctxLock\<close>; Go gives every other
  field its zero value.
\<close>

definition peerSender ::
  "'s store \<Rightarrow> 's Client \<Rightarrow> peer_ID \<Rightarrow> 's store \<times> 's Client \<times> ref" where
  "peerSender st c p =
     (case peerSenders c p of
        Some ms \<Rightarrow> (st, c, ms)
      | None \<Rightarrow>
          let ms = length (senders st)
          in (st\<lparr>senders := senders st @
                  [\<lparr>peerID = p, ctxLock = newCtxMutex, stream = None, invalid = False\<rparr>]\<rparr>,
              c\<lparr>peerSenders := (peerSenders c)(p \<mapsto> ms)\<rparr>,
              ms))"

section \<open>Resolving a sender for a peer\<close>

text \<open>
  The error branch of \<^verbatim>\<open>messageSenderForPeer\<close>: the block that runs under \<^verbatim>\<open>sendersLock\<close>
  once \<^verbatim>\<open>prepOrInvalidate\<close> on \<open>ms\<close> has returned \<open>err\<close>. \<open>Inr\<close> is a sender returned with a nil
  error, \<open>Inl\<close> the error returned with a nil sender.
\<close>

definition messageSenderForPeer_failed ::
  "'s Client \<Rightarrow> peer_ID \<Rightarrow> ref \<Rightarrow> error \<Rightarrow> 's Client \<times> (error + ref)" where
  "messageSenderForPeer_failed c p ms err =
     (case peerSenders c p of
        Some msCur \<Rightarrow>
          if ms \<noteq> msCur then (c, Inr msCur)
          else (c\<lparr>peerSenders := (peerSenders c)(p := None)\<rparr>, Inl err)
      | None \<Rightarrow> (c, Inl err))"

text \<open>
  The methods of \<^verbatim>\<open>peerMessageSender\<close> are not in the source read here, so the functions
  of the client take them as parameters. A method gets the arguments of the call, the
  receiver, and the store; it returns the store and its error (\<open>None\<close> for nil). The
  whole result is \<open>None\<close> when the call has no result: it never returns.
\<close>

type_synonym 's prep_method =
  "context \<Rightarrow> 's Host \<Rightarrow> protocol_ID list \<Rightarrow> ref \<Rightarrow> 's store
     \<Rightarrow> ('s store \<times> error option) option"

type_synonym 's request_method =
  "context \<Rightarrow> message \<Rightarrow> DecodeResponseFunc \<Rightarrow> 's Host \<Rightarrow> protocol_ID list \<Rightarrow> ref \<Rightarrow> 's store
     \<Rightarrow> ('s store \<times> error option) option"

type_synonym 's message_method =
  "context \<Rightarrow> message \<Rightarrow> 's Host \<Rightarrow> protocol_ID list \<Rightarrow> ref \<Rightarrow> 's store
     \<Rightarrow> ('s store \<times> error option) option"

text \<open>
  What the other goroutines do to the store and to the client between two points of one
  goroutine's run.
\<close>

type_synonym 's interference = "'s store \<times> 's Client \<Rightarrow> 's store \<times> 's Client"

text \<open>A call one goroutine makes on a sender, in the order of the calls.\<close>

datatype call = PrepOrInvalidate ref | SendRequestOn ref | SendMessageOn ref

text \<open>
  \<^verbatim>\<open>func (c *Client) messageSenderForPeer(ctx, peerID)\<close>. \<^verbatim>\<open>prepOrInvalidate\<close> runs outside
  \<^verbatim>\<open>sendersLock\<close>, so between \<^verbatim>\<open>peerSender\<close>'s unlock and the error branch's lock the other
  goroutines run: \<open>env\<close> is what they have done by the time the lock is taken again. The
  result carries the calls made on senders.
\<close>

definition messageSenderForPeer ::
  "'s prep_method \<Rightarrow> 's interference \<Rightarrow> 's store \<Rightarrow> 's Client \<Rightarrow> context \<Rightarrow> peer_ID
     \<Rightarrow> ('s store \<times> 's Client \<times> call list \<times> (error + ref)) option" where
  "messageSenderForPeer prep env st c cx p =
     (case peerSender st c p of (st1, c1, ms) \<Rightarrow>
        (case prep cx (host c1) (protocols c1) ms st1 of
           None \<Rightarrow> None
         | Some (st2, Some err) \<Rightarrow>
             (case env (st2, c1) of (st3, c3) \<Rightarrow>
                (case messageSenderForPeer_failed c3 p ms err of (c4, res) \<Rightarrow>
                   Some (st3, c4, [PrepOrInvalidate ms], res)))
         | Some (st2, None) \<Rightarrow> Some (st2, c1, [PrepOrInvalidate ms], Inr ms)))"

text \<open>\<^verbatim>\<open>func (c *Client) SendRequest(ctx, p, msg, decodeRsp) error\<close>\<close>

definition SendRequest ::
  "'s prep_method \<Rightarrow> 's request_method \<Rightarrow> 's interference \<Rightarrow> 's store \<Rightarrow> 's Client \<Rightarrow> context
     \<Rightarrow> peer_ID \<Rightarrow> message \<Rightarrow> DecodeResponseFunc
     \<Rightarrow> ('s store \<times> 's Client \<times> call list \<times> error option) option" where
  "SendRequest prep sendRequest env st c cx p msg decodeRsp =
     (case messageSenderForPeer prep env st c cx p of
        None \<Rightarrow> None
      | Some (st1, c1, calls, Inl err) \<Rightarrow> Some (st1, c1, calls, Some err)
      | Some (st1, c1, calls, Inr sender) \<Rightarrow>
          (case sendRequest cx msg decodeRsp (host c1) (protocols c1) sender st1 of
             None \<Rightarrow> None
           | Some (st2, r) \<Rightarrow> Some (st2, c1, calls @ [SendRequestOn sender], r)))"

text \<open>\<^verbatim>\<open>func (c *Client) SendMessage(ctx, p, msg) error\<close>\<close>

definition SendMessage ::
  "'s prep_method \<Rightarrow> 's message_method \<Rightarrow> 's interference \<Rightarrow> 's store \<Rightarrow> 's Client \<Rightarrow> context
     \<Rightarrow> peer_ID \<Rightarrow> message
     \<Rightarrow> ('s store \<times> 's Client \<times> call list \<times> error option) option" where
  "SendMessage prep sendMessage env st c cx p msg =
     (case messageSenderForPeer prep env st c cx p of
        None \<Rightarrow> None
      | Some (st1, c1, calls, Inl err) \<Rightarrow> Some (st1, c1, calls, Some err)
      | Some (st1, c1, calls, Inr sender) \<Rightarrow>
          (case sendMessage cx msg (host c1) (protocols c1) sender st1 of
             None \<Rightarrow> None
           | Some (st2, Some err) \<Rightarrow> Some (st2, c1, calls @ [SendMessageOn sender], Some err)
           | Some (st2, None) \<Rightarrow> Some (st2, c1, calls @ [SendMessageOn sender], None)))"

section \<open>Goroutines running against one client\<close>

text \<open>
  A method of a sender writes to its receiver only. Its code is not in the source read
  here, so the goroutine model lets a method leave any lock state, stream handle and
  invalid mark in the receiver; the peer identity is set once, by \<^verbatim>\<open>peerSender\<close>.
\<close>

definition touch :: "ref \<Rightarrow> ctxMutex \<Rightarrow> 's option \<Rightarrow> bool \<Rightarrow> 's store \<Rightarrow> 's store" where
  "touch ms l so b st =
     st\<lparr>senders := (senders st)[ms := (senders st ! ms)\<lparr>ctxLock := l, stream := so, invalid := b\<rparr>]\<rparr>"

text \<open>
  Where a goroutine is in \<^verbatim>\<open>SendRequest\<close> or \<^verbatim>\<open>SendMessage\<close>: about to call \<^verbatim>\<open>peerSender\<close>; in
  \<^verbatim>\<open>prepOrInvalidate\<close> on the sender it got; back from it with an error and about to take
  \<^verbatim>\<open>sendersLock\<close>; back from \<^verbatim>\<open>messageSenderForPeer\<close> with a sender, which it sends on; or
  back with an error.
\<close>

datatype goroutine =
  Start peer_ID
| Prepping peer_ID ref
| Failed peer_ID ref error
| Holding ref
| Finished error

record 's system =
  sys_store :: "'s store"
  sys_client :: "'s Client"
  sys_goroutines :: "goroutine list"

text \<open>
  The atomic steps. \<open>Call p\<close>: a new goroutine calls the client for peer \<open>p\<close>. \<open>Lookup i p\<close>:
  goroutine \<open>i\<close> runs \<^verbatim>\<open>peerSender\<close> for \<open>p\<close>. \<open>PrepReturns i r\<close>: its \<^verbatim>\<open>prepOrInvalidate\<close> returns \<open>r\<close>.
  \<open>Relock i\<close>: it runs the error branch of \<^verbatim>\<open>messageSenderForPeer\<close>. \<open>Touch i l so b\<close>: the method
  it is running on its sender writes to the sender. \<open>Disconnect p\<close>: the entry of \<open>p\<close> is
  removed from the registry by code outside the file, as the comment
  \<^verbatim>\<open>Must have been removed by a disconnect\<close> in \<^verbatim>\<open>messageSenderForPeer\<close> expects.
\<close>

datatype 's event =
  Call peer_ID
| Lookup nat peer_ID
| PrepReturns nat "error option"
| Relock nat
| Touch nat ctxMutex "'s option" bool
| Disconnect peer_ID

fun step :: "'s event \<Rightarrow> 's system \<Rightarrow> 's system option" where
  "step (Call p) s = Some (s\<lparr>sys_goroutines := sys_goroutines s @ [Start p]\<rparr>)"
| "step (Lookup i p) s =
     (if i < length (sys_goroutines s) \<and> sys_goroutines s ! i = Start p then
        (case peerSender (sys_store s) (sys_client s) p of (st', c', ms) \<Rightarrow>
           Some \<lparr>sys_store = st', sys_client = c',
                 sys_goroutines = (sys_goroutines s)[i := Prepping p ms]\<rparr>)
      else None)"
| "step (PrepReturns i r) s =
     (if i < length (sys_goroutines s) then
        (case sys_goroutines s ! i of
           Prepping p ms \<Rightarrow>
             Some (s\<lparr>sys_goroutines := (sys_goroutines s)
                      [i := (case r of None \<Rightarrow> Holding ms | Some err \<Rightarrow> Failed p ms err)]\<rparr>)
         | _ \<Rightarrow> None)
      else None)"
| "step (Relock i) s =
     (if i < length (sys_goroutines s) then
        (case sys_goroutines s ! i of
           Failed p ms err \<Rightarrow>
             (case messageSenderForPeer_failed (sys_client s) p ms err of (c', res) \<Rightarrow>
                Some (s\<lparr>sys_client := c',
                        sys_goroutines := (sys_goroutines s)
                          [i := (case res of Inr cur \<Rightarrow> Holding cur | Inl e \<Rightarrow> Finished e)]\<rparr>))
         | _ \<Rightarrow> None)
      else None)"
| "step (Touch i l so b) s =
     (if i < length (sys_goroutines s) then
        (case sys_goroutines s ! i of
           Prepping p ms \<Rightarrow> Some (s\<lparr>sys_store := touch ms l so b (sys_store s)\<rparr>)
         | Holding ms \<Rightarrow> Some (s\<lparr>sys_store := touch ms l so b (sys_store s)\<rparr>)
         | _ \<Rightarrow> None)
      else None)"
| "step (Disconnect p) s =
     Some (s\<lparr>sys_client := (sys_client s)\<lparr>peerSenders := (peerSenders (sys_client s))(p := None)\<rparr>\<rparr>)"

text \<open>A run: the events in order; \<open>None\<close> when one of them cannot happen where it stands.\<close>

fun exec :: "'s event list \<Rightarrow> 's system \<Rightarrow> 's system option" where
  "exec [] s = Some s"
| "exec (e # es) s = (case step e s of None \<Rightarrow> None | Some s' \<Rightarrow> exec es s')"

text \<open>A client as \<^verbatim>\<open>NewClient\<close> returns it: nothing allocated, nothing sent, no goroutine.\<close>

definition boot :: "'s Client \<Rightarrow> 's system" where
  "boot c = \<lparr>sys_store = \<lparr>senders = [], wire = []\<rparr>, sys_client = c, sys_goroutines = []\<rparr>"

text \<open>The registry of a system, and the instances reachable from it for one peer.\<close>

definition registry :: "'s system \<Rightarrow> peer_ID \<rightharpoonup> ref" where
  "registry s = peerSenders (sys_client s)"

definition instances :: "'s system \<Rightarrow> peer_ID \<Rightarrow> ref set" where
  "instances s p = {ms. registry s p = Some ms}"

text \<open>Every entry of the registry is an allocated sender of the peer it is filed under.\<close>

definition registry_ok :: "'s store \<Rightarrow> 's Client \<Rightarrow> bool" where
  "registry_ok st c \<longleftrightarrow>
     (\<forall>p ms. peerSenders c p = Some ms \<longrightarrow>
        ms < length (senders st) \<and> peerID (senders st ! ms) = p)"

section \<open>The methods of a sender\<close>

text \<open>
  Modelled from the spec: \<^verbatim>\<open>ctxMutex.Lock\<close> is missing. The spec's
  \<^verbatim>\<open>acquire(cancelSignal)\<close> blocks the caller until the lock is free and fails if the
  cancellation fires first: with the lock free it is taken; with the lock held and the
  context cancelled the call fails; otherwise the call does not return.
\<close>

definition Lock :: "context \<Rightarrow> ctxMutex \<Rightarrow> (error + ctxMutex) option" where
  "Lock cx m =
     (if \<not> held m then Some (Inr (CtxMutex True))
      else (case ctx_err cx of Some err \<Rightarrow> Some (Inl err) | None \<Rightarrow> None))"

text \<open>
  Modelled from the spec: \<^verbatim>\<open>ctxMutex.Unlock\<close> is missing. The spec's \<^verbatim>\<open>release()\<close> frees the lock
  and is idempotent.
\<close>

definition Unlock :: "ctxMutex \<Rightarrow> ctxMutex" where
  "Unlock m = CtxMutex False"

text \<open>
  Modelled from the spec: the error of a negotiation that established no protocol, for a
  call that had no protocol to try.
\<close>

definition ErrNegotiation :: error where
  "ErrNegotiation = Error ''no accepted protocol could be established''"

text \<open>
  Modelled from the spec: opening a stream tries the accepted protocols in order; the
  first successful negotiation wins; when the host returns an error for every protocol
  attempted the opening fails (with the last error). The result carries the attempts.
\<close>

fun openStream ::
  "'s Host \<Rightarrow> peer_ID \<Rightarrow> protocol_ID list \<Rightarrow> error \<Rightarrow> 's io list \<times> (error + 's)" where
  "openStream h p [] e0 = ([], Inl e0)"
| "openStream h p (pr # prs) e0 =
     (case negotiate h p pr of
        Inr s \<Rightarrow> ([Negotiate p pr], Inr s)
      | Inl err \<Rightarrow>
          (case openStream h p prs err of (tried, r) \<Rightarrow> (Negotiate p pr # tried, r)))"

text \<open>
  Modelled from the spec: the error of a call on a sender that is marked invalid. The
  spec's state machine makes Invalid terminal for the instance.
\<close>

definition ErrInvalidated :: error where
  "ErrInvalidated = Error ''message sender has been invalidated''"

text \<open>
  Modelled from the spec: \<^verbatim>\<open>peerMessageSender.prepOrInvalidate\<close> is missing. The spec's
  \<^verbatim>\<open>prepareOrInvalidate(ctx, host, acceptedProtocols)\<close> acquires the cancellable lock. A
  sender marked invalid is retired, not repaired, and its handle is permanently absent:
  the call fails and negotiates nothing. Otherwise, if no stream handle is present it
  opens one, and if that fails the call fails and the sender is marked invalid, the
  lock released and the handle left absent; if a handle is present a liveness check may
  be performed, and a failure clears the handle and returns the failure. On success the
  handle is present and the caller holds the lock.
\<close>

definition prepOrInvalidate :: "'s prep_method" where
  "prepOrInvalidate cx h protos ms st =
     (if ms < length (senders st) then
        (let obj = senders st ! ms in
         case Lock cx (ctxLock obj) of
           None \<Rightarrow> None
         | Some (Inl err) \<Rightarrow> Some (st, Some err)
         | Some (Inr l) \<Rightarrow>
             if invalid obj then
               Some (st\<lparr>senders := (senders st)[ms := obj\<lparr>ctxLock := Unlock l, stream := None\<rparr>]\<rparr>,
                     Some ErrInvalidated)
             else
             (case stream obj of
                None \<Rightarrow>
                  (case openStream h (peerID obj) protos ErrNegotiation of
                     (tried, Inr s) \<Rightarrow>
                       Some (st\<lparr>senders := (senders st)[ms := obj\<lparr>ctxLock := l, stream := Some s\<rparr>],
                                wire := wire st @ tried\<rparr>, None)
                   | (tried, Inl err) \<Rightarrow>
                       Some (st\<lparr>senders := (senders st)
                                  [ms := obj\<lparr>ctxLock := Unlock l, stream := None, invalid := True\<rparr>],
                                wire := wire st @ tried\<rparr>, Some err))
              | Some s \<Rightarrow>
                  (case liveness h s of
                     None \<Rightarrow> Some (st\<lparr>senders := (senders st)[ms := obj\<lparr>ctxLock := l\<rparr>]\<rparr>, None)
                   | Some err \<Rightarrow>
                       Some (st\<lparr>senders := (senders st)
                                  [ms := obj\<lparr>ctxLock := Unlock l, stream := None, invalid := True\<rparr>],
                                wire := wire st @ [Reset s]\<rparr>, Some err))))
      else None)"

text \<open>
  Modelled from the spec: reading the response is missing. The read waits for a fixed
  window, \<open>readMessageTimeout\<close>, measured from its start; bytes that arrive before the end
  of the window are the response, and if none arrive the read fails with the
  read-timeout condition when the window ends. The result carries the time the read
  took.
\<close>

definition readResponse :: "'s Host \<Rightarrow> 's \<Rightarrow> int \<times> (error + bytes)" where
  "readResponse h s =
     (case reply h s of
        Some (d, bs) \<Rightarrow>
          if d < readMessageTimeout then (d, Inr bs) else (readMessageTimeout, Inl ErrReadTimeout)
      | None \<Rightarrow> (readMessageTimeout, Inl ErrReadTimeout))"

text \<open>
  Modelled from the spec: what a sender's methods do to it on an I/O failure is missing.
  The spec's state machine discards the handle, marks the sender invalid and releases
  the lock.
\<close>

definition invalidate :: "'s peerMessageSender \<Rightarrow> 's peerMessageSender" where
  "invalidate obj = obj\<lparr>ctxLock := Unlock (ctxLock obj), stream := None, invalid := True\<rparr>"

text \<open>
  Modelled from the spec: \<^verbatim>\<open>peerMessageSender.sendRequest\<close> is missing. The spec's
  \<^verbatim>\<open>sendRequest(ctx, message, decodeResponse)\<close> is called with the lock held and a handle
  present (the spec gives no result otherwise), serialises the message and writes it; a
  write error invalidates the stream; then it reads the response, and a read timeout
  tears the stream down; on a successful read it returns what \<open>decodeResponse\<close> returns
  on the bytes. It releases the lock on every return path.
\<close>

definition sendRequest :: "'s request_method" where
  "sendRequest cx msg decodeRsp h protos ms st =
     (if ms < length (senders st) then
        (let obj = senders st ! ms in
         case stream obj of
           None \<Rightarrow> None
         | Some s \<Rightarrow>
             (case writeMsg h s (marshal msg) of
                Some err \<Rightarrow>
                  Some (st\<lparr>senders := (senders st)[ms := invalidate obj],
                           wire := wire st @ [Write s (marshal msg), Reset s]\<rparr>, Some err)
              | None \<Rightarrow>
                  (case readResponse h s of
                     (d, Inl err) \<Rightarrow>
                       Some (st\<lparr>senders := (senders st)[ms := invalidate obj],
                                wire := wire st @ [Write s (marshal msg), Read s d, Reset s]\<rparr>,
                             Some err)
                   | (d, Inr bs) \<Rightarrow>
                       Some (st\<lparr>senders := (senders st)[ms := obj\<lparr>ctxLock := Unlock (ctxLock obj)\<rparr>],
                                wire := wire st @ [Write s (marshal msg), Read s d]\<rparr>,
                             decodeRsp bs))))
      else None)"

text \<open>
  Modelled from the spec: \<^verbatim>\<open>peerMessageSender.sendMessage\<close> is missing. The same write path
  as \<^verbatim>\<open>sendRequest\<close>, with no read.
\<close>

definition sendMessage :: "'s message_method" where
  "sendMessage cx msg h protos ms st =
     (if ms < length (senders st) then
        (let obj = senders st ! ms in
         case stream obj of
           None \<Rightarrow> None
         | Some s \<Rightarrow>
             (case writeMsg h s (marshal msg) of
                Some err \<Rightarrow>
                  Some (st\<lparr>senders := (senders st)[ms := invalidate obj],
                           wire := wire st @ [Write s (marshal msg), Reset s]\<rparr>, Some err)
              | None \<Rightarrow>
                  Some (st\<lparr>senders := (senders st)[ms := obj\<lparr>ctxLock := Unlock (ctxLock obj)\<rparr>],
                           wire := wire st @ [Write s (marshal msg)]\<rparr>, None)))
      else None)"

section \<open>Example inputs\<close>

text \<open>
  A host whose peers accept the protocol \<open>v1\<close> only, whose writes succeed and whose peers
  answer a request after five nanoseconds. A stream handle is named by its peer and its
  protocol.
\<close>

definition ex_host :: "string Host" where
  "ex_host =
     \<lparr>ID = ''self'',
      negotiate = (\<lambda>p pr. if pr = ''v1'' then Inr (p @ ''/'' @ pr)
                           else Inl (Error ''protocol not supported'')),
      liveness = (\<lambda>s. None),
      writeMsg = (\<lambda>s bs. None),
      reply = (\<lambda>s. Some (5, ''pong''))\<rparr>"

definition ex_ctx :: "context" where
  "ex_ctx = Context None None"

definition ex_client :: "string Client" where
  "ex_client =
     \<lparr>ctx = ex_ctx, host = ex_host, self = ''self'', peerSenders = Map.empty,
      protocols = [''v1'']\<rparr>"

definition ex_store :: "string store" where
  "ex_store = \<lparr>senders = [], wire = []\<rparr>"

definition ex_sender :: "peer_ID \<Rightarrow> string peerMessageSender" where
  "ex_sender p = \<lparr>peerID = p, ctxLock = newCtxMutex, stream = None, invalid = False\<rparr>"

text \<open>A preparation that fails, and a send that succeeds, whatever the sender.\<close>

definition ex_prep_fails :: "string prep_method" where
  "ex_prep_fails cx h protos ms st = Some (st, Some (Error ''dial failed''))"

definition ex_request_ok :: "string request_method" where
  "ex_request_ok cx msg decodeRsp h protos ms st = Some (st, None)"

definition ex_message_ok :: "string message_method" where
  "ex_message_ok cx msg h protos ms st = Some (st, None)"

text \<open>
  Other goroutines that, while this one prepares, have put a new sender in the registry
  for the peer \<open>P\<close>.
\<close>

definition ex_env_replaces :: "string interference" where
  "ex_env_replaces = (\<lambda>(st, c).
     (st\<lparr>senders := senders st @ [ex_sender ''P'']\<rparr>,
      c\<lparr>peerSenders := (peerSenders c)(''P'' \<mapsto> length (senders st))\<rparr>))"

text \<open>Other goroutines that have emptied the registry.\<close>

definition ex_env_removes :: "string interference" where
  "ex_env_removes = (\<lambda>(st, c). (st, c\<lparr>peerSenders := Map.empty\<rparr>))"

text \<open>An option that fails.\<close>

definition ex_bad_option :: ClientOption where
  "ex_bad_option cfg = Inl (Error ''bad option'')"

text \<open>
  States of a system with one client: a goroutine whose preparation of the sender of \<open>P\<close>
  has failed; the same after its error branch; the same with two new callers; and two
  goroutines that looked the same peer up.
\<close>

definition ex_failed :: "string system" where
  "ex_failed =
     \<lparr>sys_store = \<lparr>senders = [ex_sender ''P''], wire = []\<rparr>,
      sys_client = ex_client\<lparr>peerSenders := [''P'' \<mapsto> 0]\<rparr>,
      sys_goroutines = [Failed ''P'' 0 (Error ''dial failed'')]\<rparr>"

definition ex_evicted :: "string system" where
  "ex_evicted =
     \<lparr>sys_store = \<lparr>senders = [ex_sender ''P''], wire = []\<rparr>,
      sys_client = ex_client,
      sys_goroutines = [Finished (Error ''dial failed'')]\<rparr>"

definition ex_waiting :: "string system" where
  "ex_waiting =
     \<lparr>sys_store = \<lparr>senders = [ex_sender ''P''], wire = []\<rparr>,
      sys_client = ex_client,
      sys_goroutines = [Finished (Error ''dial failed''), Start ''P'', Start ''Q'']\<rparr>"

definition ex_shared :: "string system" where
  "ex_shared =
     \<lparr>sys_store = \<lparr>senders = [ex_sender ''P''], wire = []\<rparr>,
      sys_client = ex_client\<lparr>peerSenders := [''P'' \<mapsto> 0]\<rparr>,
      sys_goroutines = [Prepping ''P'' 0, Prepping ''P'' 0]\<rparr>"

text \<open>
  A host whose peers never answer; a store whose one sender, for \<open>P\<close>, is prepared (lock
  held, stream open under \<open>v1\<close>); a store whose one sender, for \<open>P\<close>, is retired (no
  handle, marked invalid, lock free); a decoder that rejects every response; and the
  store after a first and after a second request on the prepared sender.
\<close>

definition ex_silent_host :: "string Host" where
  "ex_silent_host = ex_host\<lparr>reply := (\<lambda>s. None)\<rparr>"

definition ex_prepared :: "string store" where
  "ex_prepared =
     \<lparr>senders = [\<lparr>peerID = ''P'', ctxLock = CtxMutex True, stream = Some ''P/v1'',
                  invalid = False\<rparr>],
      wire = [Negotiate ''P'' ''v1'']\<rparr>"

definition ex_retired :: "string store" where
  "ex_retired =
     \<lparr>senders = [\<lparr>peerID = ''P'', ctxLock = CtxMutex False, stream = None, invalid = True\<rparr>],
      wire = []\<rparr>"

definition ex_decode_fails :: DecodeResponseFunc where
  "ex_decode_fails bs = Some (Error ''bad response'')"

definition ex_after_first :: "string store" where
  "ex_after_first =
     \<lparr>senders = [\<lparr>peerID = ''P'', ctxLock = CtxMutex False, stream = Some ''P/v1'',
                  invalid = False\<rparr>],
      wire = [Negotiate ''P'' ''v1'', Write ''P/v1'' ''ping'', Read ''P/v1'' 5]\<rparr>"

definition ex_after_second :: "string store" where
  "ex_after_second =
     \<lparr>senders = [\<lparr>peerID = ''P'', ctxLock = CtxMutex False, stream = Some ''P/v1'',
                  invalid = False\<rparr>],
      wire = [Negotiate ''P'' ''v1'', Write ''P/v1'' ''ping'', Read ''P/v1'' 5,
              Write ''P/v1'' ''again'', Read ''P/v1'' 5]\<rparr>"

section \<open>Properties of the registry operations\<close>

text \<open>
  C4. \<^verbatim>\<open>peerSender\<close>, run under the registry lock: when the registry has an entry for the
  peer, that entry is returned and nothing changes; otherwise a new sender is allocated
  at an address not in use, with the peer's identity, a new (free) lock and no stream
  handle, the registry gets that address for the peer and nothing else changes, and the
  new address is returned.
\<close>

theorem peerSender_lookup_or_create:
  "(\<forall>ms. peerSenders c p = Some ms \<longrightarrow> peerSender st c p = (st, c, ms)) \<and>
   (peerSenders c p = None \<longrightarrow>
      (\<exists>st' c' ms.
         peerSender st c p = (st', c', ms) \<and>
         ms = length (senders st) \<and>
         st' = st\<lparr>senders := senders st @
           [\<lparr>peerID = p, ctxLock = newCtxMutex, stream = None, invalid = False\<rparr>]\<rparr> \<and>
         take (length (senders st)) (senders st') = senders st \<and>
         peerID (senders st' ! ms) = p \<and> ctxLock (senders st' ! ms) = newCtxMutex \<and>
         \<not> held (ctxLock (senders st' ! ms)) \<and> stream (senders st' ! ms) = None \<and>
         peerSenders c' p = Some ms \<and>
         c' = c\<lparr>peerSenders := (peerSenders c)(p \<mapsto> ms)\<rparr>))"
  by (simp add: peerSender_def newCtxMutex_def Let_def)

theorem peerSender_lookup_or_create_witness:
  "peerSenders ex_client ''P'' = None \<and>
   peerSender ex_store ex_client ''P'' =
     (\<lparr>senders = [ex_sender ''P''], wire = []\<rparr>, ex_client\<lparr>peerSenders := [''P'' \<mapsto> 0]\<rparr>, 0) \<and>
   peerSenders (ex_client\<lparr>peerSenders := [''P'' \<mapsto> 0]\<rparr>) ''P'' = Some 0 \<and>
   peerSender \<lparr>senders = [ex_sender ''P''], wire = []\<rparr>
       (ex_client\<lparr>peerSenders := [''P'' \<mapsto> 0]\<rparr>) ''P'' =
     (\<lparr>senders = [ex_sender ''P''], wire = []\<rparr>, ex_client\<lparr>peerSenders := [''P'' \<mapsto> 0]\<rparr>, 0)"
proof -
  have absent: "peerSenders ex_client ''P'' = None"
    by (simp add: ex_client_def)
  have present: "peerSenders (ex_client\<lparr>peerSenders := [''P'' \<mapsto> 0]\<rparr>) ''P'' = Some 0"
    by simp
  show ?thesis
    using peerSender_lookup_or_create [of ex_client "''P''" ex_store]
      peerSender_lookup_or_create [of "ex_client\<lparr>peerSenders := [''P'' \<mapsto> 0]\<rparr>" "''P''"
        "\<lparr>senders = [ex_sender ''P''], wire = []\<rparr>"]
      absent present
    by (simp add: ex_store_def ex_sender_def ex_client_def)
qed

section \<open>The example inputs, evaluated\<close>

lemma ex_lookup:
  "peerSender ex_store ex_client ''P'' =
     (\<lparr>senders = [ex_sender ''P''], wire = []\<rparr>,
      ex_client\<lparr>peerSenders := [''P'' \<mapsto> 0]\<rparr>, 0)"
  by (simp add: peerSender_def ex_store_def ex_client_def ex_sender_def)

lemma ex_prep:
  "ex_prep_fails ex_ctx (host (ex_client\<lparr>peerSenders := [''P'' \<mapsto> 0]\<rparr>))
       (protocols (ex_client\<lparr>peerSenders := [''P'' \<mapsto> 0]\<rparr>)) 0
       \<lparr>senders = [ex_sender ''P''], wire = []\<rparr> =
     Some (\<lparr>senders = [ex_sender ''P''], wire = []\<rparr>, Some (Error ''dial failed''))"
  by (simp add: ex_prep_fails_def)

lemma ex_env_replaces_eq:
  "ex_env_replaces
       (\<lparr>senders = [ex_sender ''P''], wire = []\<rparr>, ex_client\<lparr>peerSenders := [''P'' \<mapsto> 0]\<rparr>) =
     (\<lparr>senders = [ex_sender ''P'', ex_sender ''P''], wire = []\<rparr>,
      ex_client\<lparr>peerSenders := [''P'' \<mapsto> 1]\<rparr>)"
  by (simp add: ex_env_replaces_def ex_client_def)

lemma ex_env_removes_eq:
  "ex_env_removes
       (\<lparr>senders = [ex_sender ''P''], wire = []\<rparr>, ex_client\<lparr>peerSenders := [''P'' \<mapsto> 0]\<rparr>) =
     (\<lparr>senders = [ex_sender ''P''], wire = []\<rparr>, ex_client)"
  by (simp add: ex_env_removes_def ex_client_def)

lemma ex_env_id_eq:
  "id (\<lparr>senders = [ex_sender ''P''], wire = []\<rparr>, ex_client\<lparr>peerSenders := [''P'' \<mapsto> 0]\<rparr>) =
     (\<lparr>senders = [ex_sender ''P''], wire = []\<rparr>, ex_client\<lparr>peerSenders := [''P'' \<mapsto> 0]\<rparr>)"
  by simp

section \<open>The replace-or-evict protocol\<close>

text \<open>
  C1. Take a call of \<^verbatim>\<open>messageSenderForPeer\<close> for peer \<open>p\<close> whose \<^verbatim>\<open>peerSender\<close> returned the
  instance \<open>ms\<close> and whose preparation of \<open>ms\<close> failed with \<open>e\<close>, and let \<open>c3\<close> be the client at
  the moment the call takes the registry lock again. Then: if the registry's entry for \<open>p\<close>
  is an instance other than \<open>ms\<close>, that instance is returned with a nil error and the
  registry is as it was; if the entry is \<open>ms\<close>, the entry is removed (nothing else
  changes) and \<open>e\<close> is returned; if there is no entry, \<open>e\<close> is returned and the registry is
  as it was. The three cases exclude each other and cover every registry.
\<close>

theorem messageSenderForPeer_replace_or_evict:
  assumes "peerSender st c p = (st1, c1, ms)"
    and "prep cx (host c1) (protocols c1) ms st1 = Some (st2, Some e)"
    and "env (st2, c1) = (st3, c3)"
  shows "(\<forall>cur. peerSenders c3 p = Some cur \<and> cur \<noteq> ms \<longrightarrow>
            messageSenderForPeer prep env st c cx p =
              Some (st3, c3, [PrepOrInvalidate ms], Inr cur)) \<and>
         (peerSenders c3 p = Some ms \<longrightarrow>
            messageSenderForPeer prep env st c cx p =
              Some (st3, c3\<lparr>peerSenders := (peerSenders c3)(p := None)\<rparr>,
                    [PrepOrInvalidate ms], Inl e)) \<and>
         (peerSenders c3 p = None \<longrightarrow>
            messageSenderForPeer prep env st c cx p =
              Some (st3, c3, [PrepOrInvalidate ms], Inl e))"
  using assms by (auto simp: messageSenderForPeer_def messageSenderForPeer_failed_def)

theorem messageSenderForPeer_replace_or_evict_witness:
  "peerSender ex_store ex_client ''P'' =
     (\<lparr>senders = [ex_sender ''P''], wire = []\<rparr>, ex_client\<lparr>peerSenders := [''P'' \<mapsto> 0]\<rparr>, 0) \<and>
   ex_prep_fails ex_ctx ex_host [''v1''] 0 \<lparr>senders = [ex_sender ''P''], wire = []\<rparr> =
     Some (\<lparr>senders = [ex_sender ''P''], wire = []\<rparr>, Some (Error ''dial failed'')) \<and>
   messageSenderForPeer ex_prep_fails ex_env_replaces ex_store ex_client ex_ctx ''P'' =
     Some (\<lparr>senders = [ex_sender ''P'', ex_sender ''P''], wire = []\<rparr>,
           ex_client\<lparr>peerSenders := [''P'' \<mapsto> 1]\<rparr>, [PrepOrInvalidate 0], Inr 1) \<and>
   messageSenderForPeer ex_prep_fails id ex_store ex_client ex_ctx ''P'' =
     Some (\<lparr>senders = [ex_sender ''P''], wire = []\<rparr>,
           ex_client, [PrepOrInvalidate 0], Inl (Error ''dial failed'')) \<and>
   messageSenderForPeer ex_prep_fails ex_env_removes ex_store ex_client ex_ctx ''P'' =
     Some (\<lparr>senders = [ex_sender ''P''], wire = []\<rparr>,
           ex_client, [PrepOrInvalidate 0], Inl (Error ''dial failed''))"
proof -
  let ?c1 = "ex_client\<lparr>peerSenders := [''P'' \<mapsto> 0]\<rparr>"
  have hp: "host ?c1 = ex_host" "protocols ?c1 = [''v1'']"
    by (simp_all add: ex_client_def)
  have upd: "?c1\<lparr>peerSenders := (peerSenders ?c1)(''P'' := None)\<rparr> = ex_client"
    by (simp add: ex_client_def)
  show ?thesis
    using messageSenderForPeer_replace_or_evict
        [where prep = ex_prep_fails and env = ex_env_replaces and cx = ex_ctx,
         OF ex_lookup ex_prep ex_env_replaces_eq]
      messageSenderForPeer_replace_or_evict
        [where prep = ex_prep_fails and env = id and cx = ex_ctx,
         OF ex_lookup ex_prep ex_env_id_eq]
      messageSenderForPeer_replace_or_evict
        [where prep = ex_prep_fails and env = ex_env_removes and cx = ex_ctx,
         OF ex_lookup ex_prep ex_env_removes_eq]
      ex_lookup ex_prep hp upd
    by (simp add: ex_client_def)
qed

text \<open>
  C10. On the changed-entry path (the caller's own preparation of \<open>ms\<close> failed and the
  registry now holds another instance \<open>cur\<close> for the peer), \<^verbatim>\<open>messageSenderForPeer\<close> returns
  \<open>cur\<close> with a nil error, and \<^verbatim>\<open>SendRequest\<close> and \<^verbatim>\<open>SendMessage\<close> go on to send on \<open>cur\<close>: the
  calls this caller made on senders are one \<^verbatim>\<open>prepOrInvalidate\<close>, on \<open>ms\<close>, which failed, and
  the send on \<open>cur\<close>; it made no \<^verbatim>\<open>prepOrInvalidate\<close> call on \<open>cur\<close>.
\<close>

theorem changed_entry_sends_without_preparing:
  assumes "peerSender st c p = (st1, c1, ms)"
    and "prep cx (host c1) (protocols c1) ms st1 = Some (st2, Some e)"
    and "env (st2, c1) = (st3, c3)"
    and "peerSenders c3 p = Some cur" and "cur \<noteq> ms"
  shows "messageSenderForPeer prep env st c cx p =
           Some (st3, c3, [PrepOrInvalidate ms], Inr cur) \<and>
         SendRequest prep sreq env st c cx p msg dec =
           (case sreq cx msg dec (host c3) (protocols c3) cur st3 of
              None \<Rightarrow> None
            | Some (st4, r) \<Rightarrow> Some (st4, c3, [PrepOrInvalidate ms, SendRequestOn cur], r)) \<and>
         SendMessage prep smsg env st c cx p msg =
           (case smsg cx msg (host c3) (protocols c3) cur st3 of
              None \<Rightarrow> None
            | Some (st4, r) \<Rightarrow> Some (st4, c3, [PrepOrInvalidate ms, SendMessageOn cur], r)) \<and>
         PrepOrInvalidate cur \<notin> set [PrepOrInvalidate ms, SendRequestOn cur] \<and>
         PrepOrInvalidate cur \<notin> set [PrepOrInvalidate ms, SendMessageOn cur]"
  using assms
  by (auto simp: SendRequest_def SendMessage_def messageSenderForPeer_def
      messageSenderForPeer_failed_def split: option.splits)

theorem changed_entry_sends_without_preparing_witness:
  "peerSenders (ex_client\<lparr>peerSenders := [''P'' \<mapsto> 1]\<rparr>) ''P'' = Some 1 \<and> (1::nat) \<noteq> 0 \<and>
   messageSenderForPeer ex_prep_fails ex_env_replaces ex_store ex_client ex_ctx ''P'' =
     Some (\<lparr>senders = [ex_sender ''P'', ex_sender ''P''], wire = []\<rparr>,
           ex_client\<lparr>peerSenders := [''P'' \<mapsto> 1]\<rparr>, [PrepOrInvalidate 0], Inr 1) \<and>
   SendRequest ex_prep_fails ex_request_ok ex_env_replaces ex_store ex_client ex_ctx ''P''
       (Message ''ping'') (\<lambda>bs. None) =
     Some (\<lparr>senders = [ex_sender ''P'', ex_sender ''P''], wire = []\<rparr>,
           ex_client\<lparr>peerSenders := [''P'' \<mapsto> 1]\<rparr>,
           [PrepOrInvalidate 0, SendRequestOn 1], None) \<and>
   SendMessage ex_prep_fails ex_message_ok ex_env_replaces ex_store ex_client ex_ctx ''P''
       (Message ''ping'') =
     Some (\<lparr>senders = [ex_sender ''P'', ex_sender ''P''], wire = []\<rparr>,
           ex_client\<lparr>peerSenders := [''P'' \<mapsto> 1]\<rparr>,
           [PrepOrInvalidate 0, SendMessageOn 1], None)"
proof -
  have cur: "peerSenders (ex_client\<lparr>peerSenders := [''P'' \<mapsto> 1]\<rparr>) ''P'' = Some 1"
    by simp
  have ne: "(1::nat) \<noteq> 0" by simp
  show ?thesis
    using changed_entry_sends_without_preparing
        [where prep = ex_prep_fails and env = ex_env_replaces and cx = ex_ctx
           and sreq = ex_request_ok and smsg = ex_message_ok and msg = "Message ''ping''"
           and dec = "\<lambda>bs. None",
         OF ex_lookup ex_prep ex_env_replaces_eq cur ne]
    by (simp add: ex_request_ok_def ex_message_ok_def)
qed

section \<open>Construction\<close>

text \<open>
  C8, as the code has it. A successful \<^verbatim>\<open>NewClient\<close> returns a client whose protocol list
  is the one-element list of the \<^verbatim>\<open>protoID\<close> argument, whatever the options and whatever
  configuration they built, with the host and context given, the host's identity and an
  empty registry; and \<^verbatim>\<open>NewClient\<close> returns an error exactly when applying the options
  fails, and then it returns that error.
\<close>

theorem NewClient_protocols:
  "(\<forall>c. NewClient ap cfg0 cx h protoID options = Inr c \<longrightarrow>
        snd (ap cfg0 options) = None \<and> protocols c = [protoID] \<and>
        c = \<lparr>ctx = cx, host = h, self = ID h, peerSenders = Map.empty,
             protocols = [protoID]\<rparr>) \<and>
   (\<forall>err. NewClient ap cfg0 cx h protoID options = Inl err \<longleftrightarrow>
        snd (ap cfg0 options) = Some err)"
  by (auto simp: NewClient_def split: prod.splits option.splits)

theorem NewClient_protocols_witness:
  "NewClient apply_options zeroConfig ex_ctx ex_host ''v1'' [WithProtocols [''v2'', ''v1'']] =
     Inr ex_client \<and>
   protocols ex_client = [''v1''] \<and>
   NewClient apply_options zeroConfig ex_ctx ex_host ''v1''
       [WithProtocols [''v2'', ''v1''], ex_bad_option] = Inl (Error ''bad option'') \<and>
   snd (apply_options zeroConfig [WithProtocols [''v2'', ''v1''], ex_bad_option]) =
     Some (Error ''bad option'')"
proof -
  have ok: "NewClient apply_options zeroConfig ex_ctx ex_host ''v1''
      [WithProtocols [''v2'', ''v1'']] = Inr ex_client"
    by (simp add: NewClient_def WithProtocols_def ex_client_def ex_host_def)
  have bad: "snd (apply_options zeroConfig [WithProtocols [''v2'', ''v1''], ex_bad_option]) =
      Some (Error ''bad option'')"
    by (simp add: WithProtocols_def ex_bad_option_def)
  show ?thesis
    using NewClient_protocols [of apply_options zeroConfig ex_ctx ex_host "''v1''"
        "[WithProtocols [''v2'', ''v1'']]"]
      NewClient_protocols [of apply_options zeroConfig ex_ctx ex_host "''v1''"
        "[WithProtocols [''v2'', ''v1''], ex_bad_option]"]
      ok bad
    by simp
qed

text \<open>
  C8 as the claim states it fails: the options configure the accepted protocols
  \<open>v2\<close>, \<open>v1\<close>, they apply without error, and the client's list is the \<^verbatim>\<open>protoID\<close> argument
  alone.
\<close>

theorem NewClient_options_counterexample:
  "snd (apply_options zeroConfig [WithProtocols [''v2'', ''v1'']]) = None \<and>
   cfg_protocols (fst (apply_options zeroConfig [WithProtocols [''v2'', ''v1'']])) =
     [''v2'', ''v1''] \<and>
   NewClient apply_options zeroConfig ex_ctx ex_host ''v1'' [WithProtocols [''v2'', ''v1'']] =
     Inr ex_client \<and>
   protocols ex_client \<noteq> [''v2'', ''v1''] \<and>
   NewClient apply_options zeroConfig ex_ctx ex_host ''v1'' [] = Inr ex_client"
  by (simp add: NewClient_def WithProtocols_def ex_client_def ex_host_def zeroConfig_def)

section \<open>The registry under concurrent callers\<close>

text \<open>
  Every entry of the registry is an allocated sender of the peer it is filed under, in
  every state a client reaches from \<^verbatim>\<open>NewClient\<close>, whatever the goroutines do and in
  whatever order.
\<close>

lemma registry_ok_peerSender:
  assumes "registry_ok st c" and "peerSender st c p = (st', c', ms)"
  shows "registry_ok st' c'"
proof (cases "peerSenders c p")
  case None
  with assms(2) have st': "senders st' = senders st @
      [\<lparr>peerID = p, ctxLock = newCtxMutex, stream = None, invalid = False\<rparr>]"
    and c': "peerSenders c' = (peerSenders c)(p \<mapsto> length (senders st))"
    by (auto simp: peerSender_def Let_def)
  show ?thesis
    unfolding registry_ok_def
  proof (intro allI impI)
    fix q r
    assume "peerSenders c' q = Some r"
    then show "r < length (senders st') \<and> peerID (senders st' ! r) = q"
      using assms(1) st' c'
      by (auto simp: registry_ok_def nth_append split: if_splits)
  qed
next
  case (Some a)
  with assms show ?thesis by (simp add: peerSender_def)
qed

lemma registry_ok_failed:
  assumes "registry_ok st c" and "messageSenderForPeer_failed c p ms err = (c', res)"
  shows "registry_ok st c'"
  using assms
  by (auto simp: registry_ok_def messageSenderForPeer_failed_def split: option.splits if_splits)

lemma registry_ok_touch:
  assumes "registry_ok st c"
  shows "registry_ok (touch ms l so b st) c"
  unfolding registry_ok_def
proof (intro allI impI)
  fix p r
  assume "peerSenders c p = Some r"
  with assms have "r < length (senders st)" and "peerID (senders st ! r) = p"
    by (auto simp: registry_ok_def)
  then show "r < length (senders (touch ms l so b st)) \<and>
      peerID (senders (touch ms l so b st) ! r) = p"
    by (cases "r = ms") (simp_all add: touch_def)
qed

lemma registry_ok_remove:
  assumes "registry_ok st c"
  shows "registry_ok st (c\<lparr>peerSenders := (peerSenders c)(p := None)\<rparr>)"
  using assms by (auto simp: registry_ok_def split: if_splits)

lemma registry_ok_step:
  assumes "registry_ok (sys_store s) (sys_client s)" and "step e s = Some s'"
  shows "registry_ok (sys_store s') (sys_client s')"
proof (cases e)
  case (Call p)
  with assms show ?thesis by auto
next
  case (Lookup i p)
  with assms show ?thesis
    by (auto split: if_splits prod.splits dest: registry_ok_peerSender)
next
  case (PrepReturns i r)
  with assms show ?thesis
    by (auto split: if_splits goroutine.splits)
next
  case (Relock i)
  with assms show ?thesis
    by (auto split: if_splits goroutine.splits prod.splits dest: registry_ok_failed)
next
  case (Touch i l so b)
  with assms show ?thesis
    by (auto split: if_splits goroutine.splits intro: registry_ok_touch)
next
  case (Disconnect p)
  with assms show ?thesis
    by (auto intro: registry_ok_remove)
qed

lemma registry_ok_exec:
  "registry_ok (sys_store s) (sys_client s) \<Longrightarrow> exec es s = Some s' \<Longrightarrow>
   registry_ok (sys_store s') (sys_client s')"
proof (induction es arbitrary: s)
  case Nil
  then show ?case by simp
next
  case (Cons e es)
  then show ?case
    by (auto split: option.splits dest: registry_ok_step)
qed

lemma registry_ok_boot:
  "peerSenders c = Map.empty \<Longrightarrow> registry_ok (sys_store (boot c)) (sys_client (boot c))"
  by (simp add: registry_ok_def boot_def)

lemma step_keeps_or_removes:
  assumes "step e s = Some s'" and "registry s p = Some ms"
  shows "registry s' p = Some ms \<or> registry s' p = None"
proof (cases e)
  case (Call q)
  with assms show ?thesis by (auto simp: registry_def)
next
  case (Lookup i q)
  with assms show ?thesis
    by (auto simp: registry_def peerSender_def Let_def split: if_splits option.splits)
next
  case (PrepReturns i r)
  with assms show ?thesis
    by (auto simp: registry_def split: if_splits goroutine.splits)
next
  case (Relock i)
  with assms show ?thesis
    by (auto simp: registry_def messageSenderForPeer_failed_def
        split: if_splits goroutine.splits option.splits)
next
  case (Touch i l so b)
  with assms show ?thesis
    by (auto simp: registry_def split: if_splits goroutine.splits)
next
  case (Disconnect q)
  with assms show ?thesis by (cases "p = q") (auto simp: registry_def)
qed

lemma peerSender_keeps_entries:
  assumes "peerSenders c p = Some ms" and "peerSender st c q = (st', c', r)"
  shows "peerSenders c' p = Some ms"
  using assms by (auto simp: peerSender_def Let_def split: option.splits)

lemma instances_cases:
  "instances s p = (case registry s p of None \<Rightarrow> {} | Some ms \<Rightarrow> {ms})"
  by (auto simp: instances_def split: option.splits)

text \<open>
  C2. In every state that goroutines calling a client made by \<^verbatim>\<open>NewClient\<close> can reach,
  in any interleaving of their locked blocks: at most one instance is reachable from the
  registry for a peer; that instance is an allocated sender of that peer, and no
  instance is filed under two peers; \<^verbatim>\<open>peerSender\<close> leaves every existing entry as it is;
  and no step puts another instance in the place of an entry (the entry stays or is
  removed).
\<close>

theorem registry_one_instance_per_peer:
  assumes "NewClient ap cfg0 cx h protoID options = Inr c0"
    and "exec es (boot c0) = Some s"
  shows "(\<forall>p. card (instances s p) \<le> 1) \<and>
         (\<forall>p ms ms'. ms \<in> instances s p \<and> ms' \<in> instances s p \<longrightarrow> ms = ms') \<and>
         (\<forall>p ms. ms \<in> instances s p \<longrightarrow>
            ms < length (senders (sys_store s)) \<and> peerID (senders (sys_store s) ! ms) = p) \<and>
         (\<forall>p q ms. ms \<in> instances s p \<and> ms \<in> instances s q \<longrightarrow> p = q) \<and>
         (\<forall>p ms q st' c' r.
            registry s p = Some ms \<and> peerSender (sys_store s) (sys_client s) q = (st', c', r) \<longrightarrow>
            peerSenders c' p = Some ms) \<and>
         (\<forall>e s' p ms.
            step e s = Some s' \<and> registry s p = Some ms \<longrightarrow>
            registry s' p = Some ms \<or> registry s' p = None)"
proof -
  from assms(1) have "peerSenders c0 = Map.empty"
    by (auto simp: NewClient_def split: prod.splits option.splits)
  then have ok: "registry_ok (sys_store s) (sys_client s)"
    using registry_ok_exec [OF registry_ok_boot assms(2)] by simp
  have one: "\<forall>p. card (instances s p) \<le> 1"
    by (simp add: instances_cases split: option.splits)
  have same: "\<forall>p ms ms'. ms \<in> instances s p \<and> ms' \<in> instances s p \<longrightarrow> ms = ms'"
    by (auto simp: instances_def)
  have own: "\<forall>p ms. ms \<in> instances s p \<longrightarrow>
      ms < length (senders (sys_store s)) \<and> peerID (senders (sys_store s) ! ms) = p"
    using ok by (simp add: instances_def registry_def registry_ok_def)
  have inj: "\<forall>p q ms. ms \<in> instances s p \<and> ms \<in> instances s q \<longrightarrow> p = q"
    using own by blast
  have keep: "\<forall>p ms q st' c' r.
      registry s p = Some ms \<and> peerSender (sys_store s) (sys_client s) q = (st', c', r) \<longrightarrow>
      peerSenders c' p = Some ms"
    using peerSender_keeps_entries by (fastforce simp: registry_def)
  have steps: "\<forall>e s' p ms. step e s = Some s' \<and> registry s p = Some ms \<longrightarrow>
      registry s' p = Some ms \<or> registry s' p = None"
  proof (intro allI impI)
    fix e s' p ms
    assume "step e s = Some s' \<and> registry s p = Some ms"
    then show "registry s' p = Some ms \<or> registry s' p = None"
      using step_keeps_or_removes [of e s s' p ms] by simp
  qed
  from one same own inj keep steps show ?thesis by blast
qed

text \<open>
  An allocated sender stays allocated and keeps its peer identity; an allocated sender
  that the registry does not hold is never put into it.
\<close>

lemma step_store_grows:
  assumes "step e s = Some s'" and "r < length (senders (sys_store s))"
  shows "r < length (senders (sys_store s')) \<and>
         peerID (senders (sys_store s') ! r) = peerID (senders (sys_store s) ! r)"
proof (cases e)
  case (Call q)
  with assms show ?thesis by auto
next
  case (Lookup i q)
  with assms show ?thesis
    by (auto simp: peerSender_def Let_def nth_append split: if_splits option.splits)
next
  case (PrepReturns i x)
  with assms show ?thesis
    by (auto split: if_splits goroutine.splits)
next
  case (Relock i)
  with assms show ?thesis
    by (auto split: if_splits goroutine.splits prod.splits)
next
  case (Touch i l so b)
  have "peerID (senders (touch ms l so b (sys_store s)) ! r) = peerID (senders (sys_store s) ! r)"
    for ms
    using assms(2) by (cases "r = ms") (simp_all add: touch_def)
  moreover have "r < length (senders (touch ms l so b (sys_store s)))" for ms
    using assms(2) by (simp add: touch_def)
  ultimately show ?thesis
    using assms Touch by (auto split: if_splits goroutine.splits)
next
  case (Disconnect q)
  with assms show ?thesis by auto
qed

lemma retired_step:
  assumes ok: "registry_ok (sys_store s) (sys_client s)"
    and st: "step e s = Some s'"
    and al: "ms < length (senders (sys_store s))"
    and out: "ms \<notin> ran (registry s)"
  shows "ms \<notin> ran (registry s')"
proof
  assume "ms \<in> ran (registry s')"
  then obtain p where p: "registry s' p = Some ms"
    by (auto simp: ran_def)
  from out have no: "registry s p \<noteq> Some ms"
    by (auto simp: ran_def)
  show False
  proof (cases e)
    case (Call q)
    with st p no show False by (auto simp: registry_def)
  next
    case (Lookup i q)
    with st p no al show False
      by (auto simp: registry_def peerSender_def Let_def split: if_splits option.splits)
  next
    case (PrepReturns i x)
    with st p no show False
      by (auto simp: registry_def split: if_splits goroutine.splits)
  next
    case (Relock i)
    with st p no show False
      by (auto simp: registry_def messageSenderForPeer_failed_def
          split: if_splits goroutine.splits option.splits)
  next
    case (Touch i l so b)
    with st p no show False
      by (auto simp: registry_def split: if_splits goroutine.splits)
  next
    case (Disconnect q)
    with st p no show False
      by (auto simp: registry_def split: if_splits)
  qed
qed

lemma retired_exec:
  "registry_ok (sys_store s) (sys_client s) \<Longrightarrow> exec es s = Some s' \<Longrightarrow>
   ms < length (senders (sys_store s)) \<Longrightarrow> ms \<notin> ran (registry s) \<Longrightarrow>
   ms < length (senders (sys_store s')) \<and> ms \<notin> ran (registry s')"
proof (induction es arbitrary: s)
  case Nil
  then show ?case by simp
next
  case (Cons e es)
  from Cons.prems(2) obtain s1 where s1: "step e s = Some s1" and rest: "exec es s1 = Some s'"
    by (auto split: option.splits)
  have "registry_ok (sys_store s1) (sys_client s1)"
    using registry_ok_step [OF Cons.prems(1) s1] .
  moreover have "ms < length (senders (sys_store s1))"
    using step_store_grows [OF s1 Cons.prems(3)] by simp
  moreover have "ms \<notin> ran (registry s1)"
    using retired_step [OF Cons.prems(1) s1 Cons.prems(3) Cons.prems(4)] .
  ultimately show ?case
    using Cons.IH rest by blast
qed

lemma removed_is_retired:
  assumes ok: "registry_ok (sys_store s) (sys_client s)"
    and st: "step e s = Some s1"
    and was: "registry s p = Some ms"
    and now: "registry s1 p \<noteq> Some ms"
  shows "ms < length (senders (sys_store s1)) \<and> ms \<notin> ran (registry s1) \<and> registry s1 p = None"
proof -
  from ok was have al: "ms < length (senders (sys_store s))"
    and pid: "peerID (senders (sys_store s) ! ms) = p"
    by (auto simp: registry_ok_def registry_def)
  from step_store_grows [OF st al]
  have al1: "ms < length (senders (sys_store s1))"
    and pid1: "peerID (senders (sys_store s1) ! ms) = p"
    using pid by simp_all
  have ok1: "registry_ok (sys_store s1) (sys_client s1)"
    using registry_ok_step [OF ok st] .
  have "ms \<notin> ran (registry s1)"
  proof
    assume "ms \<in> ran (registry s1)"
    then obtain q where q: "registry s1 q = Some ms"
      by (auto simp: ran_def)
    with ok1 have "peerID (senders (sys_store s1) ! ms) = q"
      by (auto simp: registry_ok_def registry_def)
    with pid1 have "q = p" by simp
    with q now show False by simp
  qed
  moreover have "registry s1 p = None"
    using step_keeps_or_removes [OF st was] now by blast
  ultimately show ?thesis using al1 by blast
qed

lemma absent_step:
  assumes "step e s = Some s'" and "registry s p = None" and "\<forall>i. e \<noteq> Lookup i p"
  shows "registry s' p = None"
proof (cases e)
  case (Call q)
  with assms show ?thesis by (auto simp: registry_def)
next
  case (Lookup i q)
  with assms have "q \<noteq> p" by auto
  with assms Lookup show ?thesis
    by (auto simp: registry_def peerSender_def Let_def split: if_splits option.splits)
next
  case (PrepReturns i x)
  with assms show ?thesis
    by (auto simp: registry_def split: if_splits goroutine.splits)
next
  case (Relock i)
  with assms show ?thesis
    by (auto simp: registry_def messageSenderForPeer_failed_def
        split: if_splits goroutine.splits option.splits)
next
  case (Touch i l so b)
  with assms show ?thesis
    by (auto simp: registry_def split: if_splits goroutine.splits)
next
  case (Disconnect q)
  with assms show ?thesis by (auto simp: registry_def)
qed

lemma absent_exec:
  "exec es s = Some s' \<Longrightarrow> registry s p = None \<Longrightarrow> \<forall>i. Lookup i p \<notin> set es \<Longrightarrow>
   registry s' p = None"
proof (induction es arbitrary: s)
  case Nil
  then show ?case by simp
next
  case (Cons e es)
  from Cons.prems(1) obtain s1 where s1: "step e s = Some s1" and rest: "exec es s1 = Some s'"
    by (auto split: option.splits)
  from Cons.prems(3) have "\<forall>i. e \<noteq> Lookup i p" by auto
  from absent_step [OF s1 Cons.prems(2) this] have "registry s1 p = None" .
  with Cons.IH rest Cons.prems(3) show ?case by auto
qed

text \<open>
  C3. Take a state reached from \<^verbatim>\<open>NewClient\<close> and a step that removes the instance \<open>ms\<close>
  from the registry entry of peer \<open>p\<close>. After any further events, \<open>ms\<close> is not in the
  registry, and a \<^verbatim>\<open>peerSender\<close> call for any peer neither returns \<open>ms\<close> nor files it. If
  none of the further events is a lookup for \<open>p\<close>, the registry has no entry for \<open>p\<close>, and
  the next lookup for \<open>p\<close> allocates a new sender, at an address not used before, with
  the peer's identity, a new lock, no stream handle and no invalid mark, files it and
  returns it.
\<close>

theorem evicted_sender_never_reinserted:
  assumes "NewClient ap cfg0 cx h protoID options = Inr c0"
    and "exec es (boot c0) = Some s"
    and "step e s = Some s1"
    and "registry s p = Some ms" and "registry s1 p \<noteq> Some ms"
    and "exec es' s1 = Some s2"
  shows "ms \<notin> ran (registry s2) \<and>
         (\<forall>q st' c' r.
            peerSender (sys_store s2) (sys_client s2) q = (st', c', r) \<longrightarrow>
            r \<noteq> ms \<and> ms \<notin> ran (peerSenders c')) \<and>
         ((\<forall>i. Lookup i p \<notin> set es') \<longrightarrow>
            registry s2 p = None \<and>
            (\<exists>st' c' r.
               peerSender (sys_store s2) (sys_client s2) p = (st', c', r) \<and>
               r \<noteq> ms \<and> r = length (senders (sys_store s2)) \<and>
               peerSenders c' p = Some r \<and>
               senders st' ! r =
                 \<lparr>peerID = p, ctxLock = newCtxMutex, stream = None, invalid = False\<rparr>))"
proof -
  from assms(1) have "peerSenders c0 = Map.empty"
    by (auto simp: NewClient_def split: prod.splits option.splits)
  then have ok: "registry_ok (sys_store s) (sys_client s)"
    using registry_ok_exec [OF registry_ok_boot assms(2)] by simp
  have ok1: "registry_ok (sys_store s1) (sys_client s1)"
    using registry_ok_step [OF ok assms(3)] .
  from removed_is_retired [OF ok assms(3) assms(4) assms(5)]
  have al1: "ms < length (senders (sys_store s1))"
    and out1: "ms \<notin> ran (registry s1)"
    and none1: "registry s1 p = None"
    by simp_all
  from retired_exec [OF ok1 assms(6) al1 out1]
  have al2: "ms < length (senders (sys_store s2))"
    and out2: "ms \<notin> ran (registry s2)"
    by simp_all
  have look: "\<forall>q st' c' r.
      peerSender (sys_store s2) (sys_client s2) q = (st', c', r) \<longrightarrow>
      r \<noteq> ms \<and> ms \<notin> ran (peerSenders c')"
  proof (intro allI impI)
    fix q st' c' r
    assume ps: "peerSender (sys_store s2) (sys_client s2) q = (st', c', r)"
    show "r \<noteq> ms \<and> ms \<notin> ran (peerSenders c')"
    proof (cases "peerSenders (sys_client s2) q")
      case None
      with ps have "r = length (senders (sys_store s2))"
        and "peerSenders c' = (peerSenders (sys_client s2))(q \<mapsto> r)"
        by (auto simp: peerSender_def Let_def)
      with al2 out2 show ?thesis
        by (auto simp: ran_def registry_def split: if_splits)
    next
      case (Some a)
      with ps have "r = a" and "c' = sys_client s2"
        by (auto simp: peerSender_def)
      with Some out2 show ?thesis
        by (auto simp: ran_def registry_def)
    qed
  qed
  have fresh: "(\<forall>i. Lookup i p \<notin> set es') \<longrightarrow>
      registry s2 p = None \<and>
      (\<exists>st' c' r.
         peerSender (sys_store s2) (sys_client s2) p = (st', c', r) \<and>
         r \<noteq> ms \<and> r = length (senders (sys_store s2)) \<and>
         peerSenders c' p = Some r \<and>
         senders st' ! r =
           \<lparr>peerID = p, ctxLock = newCtxMutex, stream = None, invalid = False\<rparr>)"
  proof
    assume "\<forall>i. Lookup i p \<notin> set es'"
    from absent_exec [OF assms(6) none1 this] have none2: "registry s2 p = None" .
    then have "peerSenders (sys_client s2) p = None"
      by (simp add: registry_def)
    then have "peerSender (sys_store s2) (sys_client s2) p =
        ((sys_store s2)\<lparr>senders := senders (sys_store s2) @
            [\<lparr>peerID = p, ctxLock = newCtxMutex, stream = None, invalid = False\<rparr>]\<rparr>,
         (sys_client s2)\<lparr>peerSenders :=
            (peerSenders (sys_client s2))(p \<mapsto> length (senders (sys_store s2)))\<rparr>,
         length (senders (sys_store s2)))"
      by (simp add: peerSender_def Let_def)
    with al2 none2 show "registry s2 p = None \<and>
      (\<exists>st' c' r.
         peerSender (sys_store s2) (sys_client s2) p = (st', c', r) \<and>
         r \<noteq> ms \<and> r = length (senders (sys_store s2)) \<and>
         peerSenders c' p = Some r \<and>
         senders st' ! r =
           \<lparr>peerID = p, ctxLock = newCtxMutex, stream = None, invalid = False\<rparr>)"
      by simp
  qed
  from out2 look fresh show ?thesis by blast
qed

section \<open>The goroutine examples, evaluated\<close>

lemma ex_new_client:
  "NewClient apply_options zeroConfig ex_ctx ex_host ''v1'' [] = Inr ex_client"
  by (simp add: NewClient_def ex_client_def ex_host_def)

lemma ex_run_failed:
  "exec [Call ''P'', Lookup 0 ''P'', PrepReturns 0 (Some (Error ''dial failed''))]
     (boot ex_client) = Some ex_failed"
  by (simp add: boot_def peerSender_def ex_failed_def ex_sender_def ex_client_def)

lemma ex_step_evicts: "step (Relock 0) ex_failed = Some ex_evicted"
  by (simp add: ex_failed_def ex_evicted_def messageSenderForPeer_failed_def ex_client_def)

lemma ex_run_waiting: "exec [Call ''P'', Call ''Q''] ex_evicted = Some ex_waiting"
  by (simp add: ex_evicted_def ex_waiting_def)

lemma ex_run_shared:
  "exec [Call ''P'', Call ''P'', Lookup 0 ''P'', Lookup 1 ''P''] (boot ex_client) = Some ex_shared"
  by (simp add: boot_def peerSender_def ex_shared_def ex_sender_def ex_client_def)

theorem evicted_sender_never_reinserted_witness:
  "NewClient apply_options zeroConfig ex_ctx ex_host ''v1'' [] = Inr ex_client \<and>
   exec [Call ''P'', Lookup 0 ''P'', PrepReturns 0 (Some (Error ''dial failed''))]
     (boot ex_client) = Some ex_failed \<and>
   step (Relock 0) ex_failed = Some ex_evicted \<and>
   registry ex_failed ''P'' = Some 0 \<and> registry ex_evicted ''P'' \<noteq> Some 0 \<and>
   exec [Call ''P'', Call ''Q''] ex_evicted = Some ex_waiting \<and>
   (\<forall>i. Lookup i ''P'' \<notin> set [Call ''P'', Call ''Q'']) \<and>
   0 \<notin> ran (registry ex_waiting) \<and>
   peerSender (sys_store ex_waiting) (sys_client ex_waiting) ''P'' =
     (\<lparr>senders = [ex_sender ''P'', ex_sender ''P''], wire = []\<rparr>,
      ex_client\<lparr>peerSenders := [''P'' \<mapsto> 1]\<rparr>, 1)"
proof -
  have was: "registry ex_failed ''P'' = Some 0"
    by (simp add: registry_def ex_failed_def)
  have now: "registry ex_evicted ''P'' \<noteq> Some 0"
    by (simp add: registry_def ex_evicted_def ex_client_def)
  have nolook: "\<forall>i. Lookup i ''P'' \<notin> set [Call ''P'', Call ''Q'']"
    by simp
  have look: "peerSender (sys_store ex_waiting) (sys_client ex_waiting) ''P'' =
     (\<lparr>senders = [ex_sender ''P'', ex_sender ''P''], wire = []\<rparr>,
      ex_client\<lparr>peerSenders := [''P'' \<mapsto> 1]\<rparr>, 1)"
    by (simp add: peerSender_def ex_waiting_def ex_client_def ex_sender_def)
  show ?thesis
    using evicted_sender_never_reinserted
        [OF ex_new_client ex_run_failed ex_step_evicts was now ex_run_waiting]
      ex_new_client ex_run_failed ex_step_evicts was now ex_run_waiting nolook look
    by simp
qed

theorem registry_one_instance_per_peer_witness:
  "NewClient apply_options zeroConfig ex_ctx ex_host ''v1'' [] = Inr ex_client \<and>
   exec [Call ''P'', Call ''P'', Lookup 0 ''P'', Lookup 1 ''P''] (boot ex_client) = Some ex_shared \<and>
   instances ex_shared ''P'' = {0} \<and> card (instances ex_shared ''P'') \<le> 1 \<and>
   peerID (senders (sys_store ex_shared) ! 0) = ''P''"
proof -
  have inst: "instances ex_shared ''P'' = {0}"
    by (auto simp: instances_def registry_def ex_shared_def)
  show ?thesis
    using registry_one_instance_per_peer [OF ex_new_client ex_run_shared]
      ex_new_client ex_run_shared inst
    by simp
qed

section \<open>The methods of a sender: negotiation, read timeout, decode failure\<close>

text \<open>The attempts of \<open>openStream\<close>: every protocol when all fail, up to the first success otherwise.\<close>

lemma openStream_all_fail:
  "\<forall>pr \<in> set prs. isl (negotiate h p pr) \<Longrightarrow>
   \<exists>err. openStream h p prs e0 = (map (Negotiate p) prs, Inl err)"
proof (induction prs arbitrary: e0)
  case Nil
  then show ?case by simp
next
  case (Cons pr prs)
  from Cons.prems obtain err where err: "negotiate h p pr = Inl err"
    by (cases "negotiate h p pr") auto
  from Cons.prems have "\<forall>x \<in> set prs. isl (negotiate h p x)" by simp
  from Cons.IH [OF this, of err] obtain err' where
    "openStream h p prs err = (map (Negotiate p) prs, Inl err')" by blast
  with err show ?case by simp
qed

lemma openStream_first_success:
  "\<forall>x \<in> set xs. isl (negotiate h p x) \<Longrightarrow> negotiate h p pr = Inr s \<Longrightarrow>
   openStream h p (xs @ pr # ys) e0 = (map (Negotiate p) (xs @ [pr]), Inr s)"
proof (induction xs arbitrary: e0)
  case Nil
  then show ?case by simp
next
  case (Cons x xs)
  from Cons.prems obtain err where err: "negotiate h p x = Inl err"
    by (cases "negotiate h p x") auto
  from Cons.prems have "\<forall>x \<in> set xs. isl (negotiate h p x)" by simp
  from Cons.IH [OF this Cons.prems(2), of err] err show ?case by simp
qed

text \<open>
  C7, as the model has it. Take a \<^verbatim>\<open>prepOrInvalidate\<close> call on a sender with no stream
  handle that is not marked invalid, whose lock the call acquires. If the host refuses the protocols \<open>xs\<close> at the head of the list and accepts the
  next one, \<open>pr\<close>, the call succeeds with the stream negotiated under \<open>pr\<close>, holds the lock,
  and has attempted exactly \<open>xs\<close> and then \<open>pr\<close>, in list order, and nothing after. If the host
  returns an error for every protocol of the list, the call fails, having attempted
  them all in order; the handle is absent, the lock released and the sender marked
  invalid.
\<close>

theorem prepOrInvalidate_negotiation_order:
  assumes "ms < length (senders st)"
    and "stream (senders st ! ms) = None"
    and "\<not> held (ctxLock (senders st ! ms))"
    and "\<not> invalid (senders st ! ms)"
  shows "(\<forall>xs pr ys s.
            protos = xs @ pr # ys \<and>
            (\<forall>x \<in> set xs. isl (negotiate h (peerID (senders st ! ms)) x)) \<and>
            negotiate h (peerID (senders st ! ms)) pr = Inr s \<longrightarrow>
            prepOrInvalidate cx h protos ms st =
              Some (st\<lparr>senders := (senders st)
                        [ms := (senders st ! ms)\<lparr>ctxLock := CtxMutex True, stream := Some s\<rparr>],
                      wire := wire st @
                        map (Negotiate (peerID (senders st ! ms))) (xs @ [pr])\<rparr>,
                    None)) \<and>
         ((\<forall>x \<in> set protos. isl (negotiate h (peerID (senders st ! ms)) x)) \<longrightarrow>
            (\<exists>err.
               prepOrInvalidate cx h protos ms st =
                 Some (st\<lparr>senders := (senders st)
                           [ms := (senders st ! ms)
                              \<lparr>ctxLock := CtxMutex False, stream := None, invalid := True\<rparr>],
                         wire := wire st @
                           map (Negotiate (peerID (senders st ! ms))) protos\<rparr>,
                       Some err)))"
proof (intro conjI allI impI)
  fix xs pr ys s
  assume hyp: "protos = xs @ pr # ys \<and>
            (\<forall>x \<in> set xs. isl (negotiate h (peerID (senders st ! ms)) x)) \<and>
            negotiate h (peerID (senders st ! ms)) pr = Inr s"
  then have "openStream h (peerID (senders st ! ms)) protos ErrNegotiation =
      (map (Negotiate (peerID (senders st ! ms))) (xs @ [pr]), Inr s)"
    using openStream_first_success [of xs h "peerID (senders st ! ms)" pr s ys ErrNegotiation]
    by simp
  with assms show "prepOrInvalidate cx h protos ms st =
              Some (st\<lparr>senders := (senders st)
                        [ms := (senders st ! ms)\<lparr>ctxLock := CtxMutex True, stream := Some s\<rparr>],
                      wire := wire st @
                        map (Negotiate (peerID (senders st ! ms))) (xs @ [pr])\<rparr>,
                    None)"
    by (simp add: prepOrInvalidate_def Lock_def Let_def)
next
  assume "\<forall>x \<in> set protos. isl (negotiate h (peerID (senders st ! ms)) x)"
  from openStream_all_fail [OF this, of ErrNegotiation] obtain err where
    "openStream h (peerID (senders st ! ms)) protos ErrNegotiation =
      (map (Negotiate (peerID (senders st ! ms))) protos, Inl err)" by blast
  with assms show "\<exists>err.
               prepOrInvalidate cx h protos ms st =
                 Some (st\<lparr>senders := (senders st)
                           [ms := (senders st ! ms)
                              \<lparr>ctxLock := CtxMutex False, stream := None, invalid := True\<rparr>],
                         wire := wire st @
                           map (Negotiate (peerID (senders st ! ms))) protos\<rparr>,
                       Some err)"
    by (simp add: prepOrInvalidate_def Lock_def Let_def Unlock_def)
qed

text \<open>
  C5. Take a \<^verbatim>\<open>sendRequest\<close> call on a sender with a stream handle, whose write succeeds and
  for which no response bytes arrive before the end of the read window. The call fails
  with \<^verbatim>\<open>ErrReadTimeout\<close>; the read lasted \<^verbatim>\<open>readMessageTimeout\<close>, ten seconds, from its start;
  the stream is torn down and the sender left with no handle, marked invalid, its lock
  released; and the result is the same for every context of the caller, whatever its
  deadline.
\<close>

theorem sendRequest_read_timeout:
  assumes "ms < length (senders st)"
    and "stream (senders st ! ms) = Some s"
    and "writeMsg h s (marshal msg) = None"
    and "reply h s = None \<or> (\<exists>d bs. reply h s = Some (d, bs) \<and> readMessageTimeout \<le> d)"
  shows "sendRequest cx msg decodeRsp h protos ms st =
           Some (st\<lparr>senders := (senders st)
                     [ms := (senders st ! ms)
                        \<lparr>ctxLock := CtxMutex False, stream := None, invalid := True\<rparr>],
                   wire := wire st @ [Write s (marshal msg), Read s readMessageTimeout, Reset s]\<rparr>,
                 Some ErrReadTimeout) \<and>
         readResponse h s = (readMessageTimeout, Inl ErrReadTimeout) \<and>
         readMessageTimeout = 10 * 1000000000 \<and>
         ErrReadTimeout = Error ''timed out reading response'' \<and>
         (\<forall>cx'. sendRequest cx' msg decodeRsp h protos ms st =
                sendRequest cx msg decodeRsp h protos ms st)"
proof -
  from assms(4) have rd: "readResponse h s = (readMessageTimeout, Inl ErrReadTimeout)"
    by (auto simp: readResponse_def)
  with assms(1-3) have "sendRequest cx msg decodeRsp h protos ms st =
           Some (st\<lparr>senders := (senders st)
                     [ms := (senders st ! ms)
                        \<lparr>ctxLock := CtxMutex False, stream := None, invalid := True\<rparr>],
                   wire := wire st @ [Write s (marshal msg), Read s readMessageTimeout, Reset s]\<rparr>,
                 Some ErrReadTimeout)"
    by (simp add: sendRequest_def Let_def invalidate_def Unlock_def)
  moreover have "\<forall>cx'. sendRequest cx' msg decodeRsp h protos ms st =
                sendRequest cx msg decodeRsp h protos ms st"
    by (simp add: sendRequest_def)
  ultimately show ?thesis
    using rd by (simp add: readMessageTimeout_def Second_def ErrReadTimeout_def)
qed

text \<open>Steps of a request on a prepared sender.\<close>

lemma peerSender_files:
  "peerSender st c p = (st', c', ms) \<Longrightarrow> peerSenders c' p = Some ms"
  by (auto simp: peerSender_def Let_def split: option.splits)

lemma prepOrInvalidate_success:
  assumes "prepOrInvalidate cx h protos ms st = Some (st', None)"
  shows "ms < length (senders st') \<and> ctxLock (senders st' ! ms) = CtxMutex True \<and>
         \<not> invalid (senders st' ! ms)"
  using assms
  by (auto simp: prepOrInvalidate_def Let_def Lock_def
      split: if_splits option.splits sum.splits prod.splits)

lemma sendRequest_decoded:
  assumes "ms < length (senders st)"
    and "stream (senders st ! ms) = Some s"
    and "writeMsg h s (marshal msg) = None"
    and "reply h s = Some (d, bs)" and "d < readMessageTimeout"
  shows "sendRequest cx msg decodeRsp h protos ms st =
           Some (st\<lparr>senders := (senders st)[ms := (senders st ! ms)\<lparr>ctxLock := CtxMutex False\<rparr>],
                   wire := wire st @ [Write s (marshal msg), Read s d]\<rparr>,
                 decodeRsp bs)"
  using assms by (simp add: sendRequest_def Let_def readResponse_def Unlock_def)

lemma sendRequest_writes_first:
  assumes "ms < length (senders st)"
    and "stream (senders st ! ms) = Some s"
  shows "\<exists>st' r rest.
           sendRequest cx msg decodeRsp h protos ms st = Some (st', r) \<and>
           wire st' = wire st @ Write s (marshal msg) # rest \<and>
           (\<forall>q pr. Negotiate q pr \<notin> set rest)"
  using assms
  by (auto simp: sendRequest_def Let_def split: option.splits sum.splits prod.splits)

lemma prepOrInvalidate_reuses:
  assumes "ms < length (senders st)"
    and "stream (senders st ! ms) = Some s"
    and "\<not> held (ctxLock (senders st ! ms))"
    and "\<not> invalid (senders st ! ms)"
    and "liveness h s = None"
  shows "prepOrInvalidate cx h protos ms st =
           Some (st\<lparr>senders := (senders st)[ms := (senders st ! ms)\<lparr>ctxLock := CtxMutex True\<rparr>]\<rparr>,
                 None)"
  using assms by (simp add: prepOrInvalidate_def Let_def Lock_def)

text \<open>
  C6. Take a \<^verbatim>\<open>SendRequest\<close> call, with no other goroutine at work, whose preparation
  succeeds with the stream handle \<open>s\<close>, whose write succeeds, whose response arrives in
  time, and whose decoder returns the error \<open>e\<close> on the response. The call returns \<open>e\<close>; the
  sender is still the registry's entry for the peer and still has the handle \<open>s\<close>. The
  next \<^verbatim>\<open>SendRequest\<close> to the same peer (the handle passing the host's liveness check, if
  the host has one) resolves the same sender, negotiates nothing, and writes its message
  to \<open>s\<close>.
\<close>

theorem decode_failure_keeps_stream:
  assumes "peerSender st c p = (st0, c0, ms)"
    and "prepOrInvalidate cx (host c0) (protocols c0) ms st0 = Some (stp, None)"
    and "stream (senders stp ! ms) = Some s"
    and "writeMsg (host c0) s (marshal msg) = None"
    and "reply (host c0) s = Some (d, bs)" and "d < readMessageTimeout"
    and "decodeRsp bs = Some e"
    and "liveness (host c0) s = None"
  shows "\<exists>st1.
           SendRequest prepOrInvalidate sendRequest id st c cx p msg decodeRsp =
             Some (st1, c0, [PrepOrInvalidate ms, SendRequestOn ms], Some e) \<and>
           peerSenders c0 p = Some ms \<and>
           stream (senders st1 ! ms) = Some s \<and>
           invalid (senders st1 ! ms) = invalid (senders stp ! ms) \<and>
           wire st1 = wire stp @ [Write s (marshal msg), Read s d] \<and>
           (\<forall>cx2 msg2 decodeRsp2.
              \<exists>st2 r2 rest.
                SendRequest prepOrInvalidate sendRequest id st1 c0 cx2 p msg2 decodeRsp2 =
                  Some (st2, c0, [PrepOrInvalidate ms, SendRequestOn ms], r2) \<and>
                wire st2 = wire st1 @ Write s (marshal msg2) # rest \<and>
                (\<forall>q pr. Negotiate q pr \<notin> set rest))"
proof -
  let ?h = "host c0" and ?prs = "protocols c0"
  let ?st1 = "stp\<lparr>senders := (senders stp)[ms := (senders stp ! ms)\<lparr>ctxLock := CtxMutex False\<rparr>],
                  wire := wire stp @ [Write s (marshal msg), Read s d]\<rparr>"
  from prepOrInvalidate_success [OF assms(2)]
  have len: "ms < length (senders stp)" and valid: "\<not> invalid (senders stp ! ms)"
    by simp_all
  have send1: "sendRequest cx msg decodeRsp ?h ?prs ms stp = Some (?st1, Some e)"
    using sendRequest_decoded [OF len assms(3) assms(4) assms(5) assms(6)] assms(7) by simp
  have resolve1: "messageSenderForPeer prepOrInvalidate id st c cx p =
      Some (stp, c0, [PrepOrInvalidate ms], Inr ms)"
    using assms(1,2) by (simp add: messageSenderForPeer_def)
  have first: "SendRequest prepOrInvalidate sendRequest id st c cx p msg decodeRsp =
      Some (?st1, c0, [PrepOrInvalidate ms, SendRequestOn ms], Some e)"
    using resolve1 send1 by (simp add: SendRequest_def)
  have entry: "peerSenders c0 p = Some ms"
    using peerSender_files [OF assms(1)] .
  have len1: "ms < length (senders ?st1)" using len by simp
  have str1: "stream (senders ?st1 ! ms) = Some s" using len assms(3) by simp
  have inv1: "invalid (senders ?st1 ! ms) = invalid (senders stp ! ms)" using len by simp
  have free1: "\<not> held (ctxLock (senders ?st1 ! ms))" using len by simp
  have valid1: "\<not> invalid (senders ?st1 ! ms)" using len valid by simp
  have second: "\<exists>st2 r2 rest.
      SendRequest prepOrInvalidate sendRequest id ?st1 c0 cx2 p msg2 decodeRsp2 =
        Some (st2, c0, [PrepOrInvalidate ms, SendRequestOn ms], r2) \<and>
      wire st2 = wire ?st1 @ Write s (marshal msg2) # rest \<and>
      (\<forall>q pr. Negotiate q pr \<notin> set rest)" for cx2 msg2 decodeRsp2
  proof -
    let ?st1p = "?st1\<lparr>senders := (senders ?st1)
        [ms := (senders ?st1 ! ms)\<lparr>ctxLock := CtxMutex True\<rparr>]\<rparr>"
    have look2: "peerSender ?st1 c0 p = (?st1, c0, ms)"
      using entry by (simp add: peerSender_def)
    have prep2: "prepOrInvalidate cx2 ?h ?prs ms ?st1 = Some (?st1p, None)"
      using prepOrInvalidate_reuses [OF len1 str1 free1 valid1 assms(8)] .
    have resolve2: "messageSenderForPeer prepOrInvalidate id ?st1 c0 cx2 p =
        Some (?st1p, c0, [PrepOrInvalidate ms], Inr ms)"
      using look2 prep2 by (simp add: messageSenderForPeer_def)
    have lenp: "ms < length (senders ?st1p)" using len by simp
    have strp: "stream (senders ?st1p ! ms) = Some s" using len assms(3) by simp
    from sendRequest_writes_first [OF lenp strp, of cx2 msg2 decodeRsp2 ?h ?prs]
    obtain st2 r2 rest where
      s2: "sendRequest cx2 msg2 decodeRsp2 ?h ?prs ms ?st1p = Some (st2, r2)"
      and w2: "wire st2 = wire ?st1p @ Write s (marshal msg2) # rest"
      and n2: "\<forall>q pr. Negotiate q pr \<notin> set rest"
      by blast
    have "SendRequest prepOrInvalidate sendRequest id ?st1 c0 cx2 p msg2 decodeRsp2 =
        Some (st2, c0, [PrepOrInvalidate ms, SendRequestOn ms], r2)"
      using resolve2 s2 by (simp add: SendRequest_def)
    moreover have "wire st2 = wire ?st1 @ Write s (marshal msg2) # rest"
      using w2 by simp
    ultimately show ?thesis using n2 by blast
  qed
  show ?thesis
    using first entry str1 inv1 second by (intro exI [of _ ?st1]) simp
qed

section \<open>The sender examples, evaluated\<close>

theorem prepOrInvalidate_negotiation_order_witness:
  "0 < length (senders \<lparr>senders = [ex_sender ''P''], wire = []\<rparr>) \<and>
   stream (senders \<lparr>senders = [ex_sender ''P''], wire = []\<rparr> ! 0) = None \<and>
   \<not> held (ctxLock (senders \<lparr>senders = [ex_sender ''P''], wire = []\<rparr> ! 0)) \<and>
   \<not> invalid (senders \<lparr>senders = [ex_sender ''P''], wire = []\<rparr> ! 0) \<and>
   negotiate ex_host ''P'' ''v2'' = Inl (Error ''protocol not supported'') \<and>
   negotiate ex_host ''P'' ''v1'' = Inr ''P/v1'' \<and>
   prepOrInvalidate ex_ctx ex_host [''v2'', ''v1''] 0 \<lparr>senders = [ex_sender ''P''], wire = []\<rparr> =
     Some (\<lparr>senders = [\<lparr>peerID = ''P'', ctxLock = CtxMutex True, stream = Some ''P/v1'',
                          invalid = False\<rparr>],
             wire = [Negotiate ''P'' ''v2'', Negotiate ''P'' ''v1'']\<rparr>, None) \<and>
   (\<exists>err. prepOrInvalidate ex_ctx ex_host [''v3'', ''v2''] 0
             \<lparr>senders = [ex_sender ''P''], wire = []\<rparr> =
     Some (\<lparr>senders = [\<lparr>peerID = ''P'', ctxLock = CtxMutex False, stream = None,
                          invalid = True\<rparr>],
             wire = [Negotiate ''P'' ''v3'', Negotiate ''P'' ''v2'']\<rparr>, Some err))"
proof -
  let ?st = "\<lparr>senders = [ex_sender ''P''], wire = []\<rparr> :: string store"
  have a: "0 < length (senders ?st)" by simp
  have b: "stream (senders ?st ! 0) = None" by (simp add: ex_sender_def)
  have c: "\<not> held (ctxLock (senders ?st ! 0))" by (simp add: ex_sender_def newCtxMutex_def)
  have d: "\<not> invalid (senders ?st ! 0)" by (simp add: ex_sender_def)
  have v2: "negotiate ex_host ''P'' ''v2'' = Inl (Error ''protocol not supported'')"
    and v1: "negotiate ex_host ''P'' ''v1'' = Inr ''P/v1''"
    and v3: "negotiate ex_host ''P'' ''v3'' = Inl (Error ''protocol not supported'')"
    by (simp_all add: ex_host_def)
  have pid: "peerID (senders ?st ! 0) = ''P''" by (simp add: ex_sender_def)
  have ok: "prepOrInvalidate ex_ctx ex_host [''v2'', ''v1''] 0 ?st =
     Some (\<lparr>senders = [\<lparr>peerID = ''P'', ctxLock = CtxMutex True, stream = Some ''P/v1'',
                          invalid = False\<rparr>],
             wire = [Negotiate ''P'' ''v2'', Negotiate ''P'' ''v1'']\<rparr>, None)"
    using prepOrInvalidate_negotiation_order
        [OF a b c d, of "[''v2'', ''v1'']" ex_host ex_ctx,
         THEN conjunct1, rule_format, of "[''v2'']" "''v1''" "[]" "''P/v1''"]
      v2 v1 pid
    by (simp add: ex_sender_def newCtxMutex_def)
  have bad: "\<exists>err. prepOrInvalidate ex_ctx ex_host [''v3'', ''v2''] 0 ?st =
     Some (\<lparr>senders = [\<lparr>peerID = ''P'', ctxLock = CtxMutex False, stream = None,
                          invalid = True\<rparr>],
             wire = [Negotiate ''P'' ''v3'', Negotiate ''P'' ''v2'']\<rparr>, Some err)"
    using prepOrInvalidate_negotiation_order
        [OF a b c d, of "[''v3'', ''v2'']" ex_host ex_ctx, THEN conjunct2]
      v2 v3 pid
    by (simp add: ex_sender_def newCtxMutex_def)
  from a b c d v2 v1 ok bad show ?thesis by blast
qed

text \<open>
  C7 as the claim states it fails on a sender that has no stream handle because it is
  retired: its lock is free and the host would accept \<open>v1\<close>, yet the call fails without
  attempting any protocol, and the handle stays absent.
\<close>

theorem prepOrInvalidate_invalid_counterexample:
  "0 < length (senders ex_retired) \<and>
   stream (senders ex_retired ! 0) = None \<and>
   \<not> held (ctxLock (senders ex_retired ! 0)) \<and>
   invalid (senders ex_retired ! 0) \<and>
   negotiate ex_host ''P'' ''v1'' = Inr ''P/v1'' \<and>
   prepOrInvalidate ex_ctx ex_host [''v2'', ''v1''] 0 ex_retired =
     Some (ex_retired, Some ErrInvalidated) \<and>
   wire ex_retired = [] \<and>
   prepOrInvalidate ex_ctx ex_host [''v2'', ''v1''] 0 ex_retired \<noteq>
     Some (\<lparr>senders = [\<lparr>peerID = ''P'', ctxLock = CtxMutex True, stream = Some ''P/v1'',
                          invalid = True\<rparr>],
             wire = [Negotiate ''P'' ''v2'', Negotiate ''P'' ''v1'']\<rparr>, None)"
  by (simp add: prepOrInvalidate_def Lock_def Unlock_def ex_retired_def ex_host_def)

theorem sendRequest_read_timeout_witness:
  "0 < length (senders ex_prepared) \<and>
   stream (senders ex_prepared ! 0) = Some ''P/v1'' \<and>
   writeMsg ex_silent_host ''P/v1'' (marshal (Message ''ping'')) = None \<and>
   reply ex_silent_host ''P/v1'' = None \<and>
   sendRequest (Context None (Some 60000000000)) (Message ''ping'') ex_decode_fails
       ex_silent_host [''v1''] 0 ex_prepared =
     Some (\<lparr>senders = [\<lparr>peerID = ''P'', ctxLock = CtxMutex False, stream = None,
                          invalid = True\<rparr>],
             wire = [Negotiate ''P'' ''v1'', Write ''P/v1'' ''ping'',
                     Read ''P/v1'' 10000000000, Reset ''P/v1'']\<rparr>,
           Some (Error ''timed out reading response''))"
proof -
  have a: "0 < length (senders ex_prepared)" by (simp add: ex_prepared_def)
  have b: "stream (senders ex_prepared ! 0) = Some ''P/v1''" by (simp add: ex_prepared_def)
  have c: "writeMsg ex_silent_host ''P/v1'' (marshal (Message ''ping'')) = None"
    by (simp add: ex_silent_host_def ex_host_def)
  have d: "reply ex_silent_host ''P/v1'' = None"
    by (simp add: ex_silent_host_def)
  have d': "reply ex_silent_host ''P/v1'' = None \<or>
      (\<exists>d bs. reply ex_silent_host ''P/v1'' = Some (d, bs) \<and> readMessageTimeout \<le> d)"
    using d by simp
  show ?thesis
    using sendRequest_read_timeout
        [OF a b c d', of "Context None (Some 60000000000)" ex_decode_fails "[''v1'']"]
      a b c d
    by (simp add: ex_prepared_def)
qed

lemma ex_prepare:
  "prepOrInvalidate ex_ctx (host (ex_client\<lparr>peerSenders := [''P'' \<mapsto> 0]\<rparr>))
       (protocols (ex_client\<lparr>peerSenders := [''P'' \<mapsto> 0]\<rparr>)) 0
       \<lparr>senders = [ex_sender ''P''], wire = []\<rparr> = Some (ex_prepared, None)"
  by (simp add: prepOrInvalidate_def Lock_def ex_client_def ex_host_def ex_sender_def
      newCtxMutex_def ex_prepared_def)

theorem decode_failure_keeps_stream_witness:
  "peerSender ex_store ex_client ''P'' =
     (\<lparr>senders = [ex_sender ''P''], wire = []\<rparr>, ex_client\<lparr>peerSenders := [''P'' \<mapsto> 0]\<rparr>, 0) \<and>
   prepOrInvalidate ex_ctx ex_host [''v1''] 0 \<lparr>senders = [ex_sender ''P''], wire = []\<rparr> =
     Some (ex_prepared, None) \<and>
   stream (senders ex_prepared ! 0) = Some ''P/v1'' \<and>
   writeMsg ex_host ''P/v1'' (marshal (Message ''ping'')) = None \<and>
   reply ex_host ''P/v1'' = Some (5, ''pong'') \<and> 5 < readMessageTimeout \<and>
   ex_decode_fails ''pong'' = Some (Error ''bad response'') \<and>
   liveness ex_host ''P/v1'' = None \<and>
   SendRequest prepOrInvalidate sendRequest id ex_store ex_client ex_ctx ''P''
       (Message ''ping'') ex_decode_fails =
     Some (ex_after_first, ex_client\<lparr>peerSenders := [''P'' \<mapsto> 0]\<rparr>,
           [PrepOrInvalidate 0, SendRequestOn 0], Some (Error ''bad response'')) \<and>
   SendRequest prepOrInvalidate sendRequest id ex_after_first
       (ex_client\<lparr>peerSenders := [''P'' \<mapsto> 0]\<rparr>) ex_ctx ''P'' (Message ''again'') (\<lambda>bs. None) =
     Some (ex_after_second, ex_client\<lparr>peerSenders := [''P'' \<mapsto> 0]\<rparr>,
           [PrepOrInvalidate 0, SendRequestOn 0], None)"
proof -
  let ?c0 = "ex_client\<lparr>peerSenders := [''P'' \<mapsto> 0]\<rparr>"
  have hp: "host ?c0 = ex_host" "protocols ?c0 = [''v1'']"
    by (simp_all add: ex_client_def)
  have str: "stream (senders ex_prepared ! 0) = Some ''P/v1''"
    by (simp add: ex_prepared_def)
  have wr: "writeMsg (host ?c0) ''P/v1'' (marshal (Message ''ping'')) = None"
    by (simp add: ex_client_def ex_host_def)
  have rp: "reply (host ?c0) ''P/v1'' = Some (5, ''pong'')"
    by (simp add: ex_client_def ex_host_def)
  have tm: "5 < readMessageTimeout"
    by (simp add: readMessageTimeout_def Second_def)
  have dc: "ex_decode_fails ''pong'' = Some (Error ''bad response'')"
    by (simp add: ex_decode_fails_def)
  have lv: "liveness (host ?c0) ''P/v1'' = None"
    by (simp add: ex_client_def ex_host_def)
  from decode_failure_keeps_stream
      [where decodeRsp = ex_decode_fails and msg = "Message ''ping''" and bs = "''pong''",
       OF ex_lookup ex_prepare str wr rp tm dc lv]
  obtain st1 where
    first: "SendRequest prepOrInvalidate sendRequest id ex_store ex_client ex_ctx ''P''
        (Message ''ping'') ex_decode_fails =
      Some (st1, ?c0, [PrepOrInvalidate 0, SendRequestOn 0], Some (Error ''bad response''))"
    and s1: "stream (senders st1 ! 0) = Some ''P/v1''"
    and w1: "wire st1 = wire ex_prepared @ [Write ''P/v1'' (marshal (Message ''ping'')), Read ''P/v1'' 5]"
    by blast
  have first': "SendRequest prepOrInvalidate sendRequest id ex_store ex_client ex_ctx ''P''
        (Message ''ping'') ex_decode_fails =
      Some (ex_after_first, ?c0, [PrepOrInvalidate 0, SendRequestOn 0],
            Some (Error ''bad response''))"
    using ex_lookup ex_prepare
    by (simp add: SendRequest_def messageSenderForPeer_def sendRequest_def readResponse_def
        readMessageTimeout_def Second_def ex_prepared_def ex_after_first_def ex_client_def
        ex_host_def ex_decode_fails_def Unlock_def)
  have second: "SendRequest prepOrInvalidate sendRequest id ex_after_first ?c0 ex_ctx ''P''
        (Message ''again'') (\<lambda>bs. None) =
      Some (ex_after_second, ?c0, [PrepOrInvalidate 0, SendRequestOn 0], None)"
    by (simp add: SendRequest_def messageSenderForPeer_def peerSender_def prepOrInvalidate_def
        Lock_def sendRequest_def readResponse_def
        readMessageTimeout_def Second_def ex_after_second_def ex_after_first_def ex_client_def
        ex_host_def Unlock_def)
  show ?thesis
    using first first' second ex_lookup ex_prepare hp str wr rp tm dc lv by simp
qed

end
